theory Spec2Isabelle
  imports Main
begin

section \<open>The HiDes modulator device (tsHiDesDevice.cpp, Linux implementation)\<close>

text \<open>
  A shallow embedding of the transmission part of \<^verbatim>\<open>ts::HiDesDevice\<close> and of its
  internal class \<^verbatim>\<open>Guts\<close>: the error text composition, \<^verbatim>\<open>tune\<close>,
  \<^verbatim>\<open>startTransmission\<close>, \<^verbatim>\<open>stopTransmission\<close> and \<^verbatim>\<open>send\<close>.

  Conventions of the model.
  \<^item> Unsigned 64-bit quantities (\<^verbatim>\<open>size_t\<close> on the LP64 Linux target, \<^verbatim>\<open>uint64_t\<close>,
    \<^verbatim>\<open>PacketCounter\<close>) are naturals; every operation of the source that can leave the
    range is written with its wrap-around \<open>mod 2 ^ 64\<close>. The bit rate (\<^verbatim>\<open>BitRate\<close>,
    unsigned) is a natural too: the source only reads it.
  \<^item> Signed quantities whose range is never approached (\<^verbatim>\<open>ssize_t\<close> statuses,
    \<^verbatim>\<open>errno\<close>, the nanosecond value held by a \<^verbatim>\<open>Monotonic\<close>) are integers.
  \<^item> The operating system is an explicit environment: the reply of the driver to each
    \<^verbatim>\<open>ioctl\<close> request and to the n-th \<^verbatim>\<open>write\<close> of a call, and the clock value read
    on entry of \<^verbatim>\<open>send\<close>.
  \<^item> What a function does to the outside (control commands, data writes, waits,
    messages given to the \<^verbatim>\<open>Report\<close>) is returned as a list of events, in the order
    the source performs them.
  \<^item> The member functions of \<^verbatim>\<open>Guts\<close> carry the prefix \<open>Guts_\<close>; the public
    functions of \<^verbatim>\<open>HiDesDevice\<close> keep their names.
\<close>

subsection \<open>Constants\<close>

definition ITE_MAX_SEND_PACKETS :: nat where
  "ITE_MAX_SEND_PACKETS = 172"

text \<open>
  Modelled from the spec: the declaration of \<^verbatim>\<open>PKT_SIZE\<close> (tsMPEG.h) is not part of the
  sources at hand; a transport packet has 188 bytes, the value \<^verbatim>\<open>ITE_MAX_SEND_BYTES\<close>
  spells out in the source.
\<close>

definition PKT_SIZE :: nat where
  "PKT_SIZE = 188"

definition ITE_MAX_SEND_BYTES :: nat where
  "ITE_MAX_SEND_BYTES = ITE_MAX_SEND_PACKETS * 188"

text \<open>
  Modelled from the spec: \<^verbatim>\<open>NanoSecPerSec\<close> (tsPlatform.h) is not part of the sources at
  hand; the spec gives the factor as 1e9.
\<close>

definition NanoSecPerSec :: nat where
  "NanoSecPerSec = 1000000000"

text \<open>
  Modelled from the spec: the host error code of the recoverable wait interruption,
  \<^verbatim>\<open>EINTR\<close> of the system headers, 4 on Linux.
\<close>

definition EINTR :: int where
  "EINTR = 4"

definition error_delay :: nat where
  "error_delay = 100"

definition max_retry :: nat where
  "max_retry = 100"

definition SIZE_MOD :: nat where
  "SIZE_MOD = 2 ^ 64"

subsection \<open>Modulation parameters\<close>

text \<open>
  Modelled from the spec: the enumeration types of the tuning parameters (tsModulation.h)
  are not part of the sources at hand. Each one is given the enumerators that
  \<^verbatim>\<open>tune\<close> names in its \<^verbatim>\<open>switch\<close>, and one more constructor that stands for
  every other value of the type (the \<^verbatim>\<open>default\<close> label), carrying the raw value.
\<close>

datatype Modulation = QPSK | QAM_16 | QAM_64 | Modulation_other nat

datatype InnerFEC = FEC_1_2 | FEC_2_3 | FEC_3_4 | FEC_5_6 | FEC_7_8 | InnerFEC_other nat

datatype GuardInterval = GUARD_1_32 | GUARD_1_16 | GUARD_1_8 | GUARD_1_4 | GuardInterval_other nat

datatype TransmissionMode = TM_2K | TM_4K | TM_8K | TransmissionMode_other nat

datatype SpectralInversion = SPINV_OFF | SPINV_ON | SPINV_AUTO | SpectralInversion_other nat

text \<open>The fields of \<^verbatim>\<open>TunerParametersDVBT\<close> that \<^verbatim>\<open>tune\<close> reads; the bandwidth is the
  raw value of its enumeration, which only \<^verbatim>\<open>BandWidthValueHz\<close> interprets.\<close>

record TunerParametersDVBT =
  frequency :: nat
  bandwidth :: nat
  modulation :: Modulation
  fec_hp :: InnerFEC
  guard_interval :: GuardInterval
  transmission_mode :: TransmissionMode
  inversion :: SpectralInversion

text \<open>The codes of the driver interface (tsIT950x.h), by their names in the source.\<close>

datatype Constellation = Mode_QPSK | Mode_16QAM | Mode_64QAM

datatype CodeRate =
  CodeRate_1_OVER_2 | CodeRate_2_OVER_3 | CodeRate_3_OVER_4 | CodeRate_5_OVER_6 | CodeRate_7_OVER_8

datatype Interval = Interval_1_OVER_32 | Interval_1_OVER_16 | Interval_1_OVER_8 | Interval_1_OVER_4

datatype TxMode = TransmissionMode_2K | TransmissionMode_4K | TransmissionMode_8K

subsection \<open>Control channel, data channel, report\<close>

text \<open>A control command is the \<^verbatim>\<open>ioctl\<close> code with the request fields the source fills.\<close>

datatype request =
    IOCTL_ITE_MOD_ACQUIRECHANNEL nat nat
  | IOCTL_ITE_MOD_SETMODULE Constellation CodeRate Interval TxMode
  | IOCTL_ITE_MOD_SETSPECTRALINVERSION bool
  | IOCTL_ITE_MOD_ENABLETXMODE nat
  | IOCTL_ITE_MOD_STARTTRANSFER
  | IOCTL_ITE_MOD_STOPTRANSFER

text \<open>The reply to a control command: the value \<^verbatim>\<open>ioctl\<close> returns, the \<^verbatim>\<open>error\<close> field
  the driver stores in the request, and \<^verbatim>\<open>errno\<close> after the call.\<close>

record ioctl_reply =
  ioctl_ret :: int
  req_error :: int
  ioctl_errno :: int

text \<open>The reply to a data write: the value \<^verbatim>\<open>write\<close> returns (a status code, not a size)
  and \<^verbatim>\<open>errno\<close> after the call.\<close>

record write_reply =
  write_status :: int
  write_errno :: int

text \<open>
  The environment of a call. The two text lookups are functions of the library whose code
  is not part of the sources at hand (\<^verbatim>\<open>DVBNameFromSection\<close> at section
  \<^verbatim>\<open>HiDesError\<close> with \<^verbatim>\<open>names::HEXA_FIRST\<close>, and \<^verbatim>\<open>ErrorCodeMessage\<close>), as are
  \<^verbatim>\<open>BandWidthValueHz\<close> and \<^verbatim>\<open>TunerParametersDVBT::theoreticalBitrate\<close>: they are
  parameters. \<open>write_nth n\<close> is the reply of the driver to the n-th \<^verbatim>\<open>write\<close> of the
  current call of \<^verbatim>\<open>send\<close>, counted from 0.
\<close>

record env =
  DVBNameFromSection_HiDesError :: "int \<Rightarrow> string"
  ErrorCodeMessage :: "int \<Rightarrow> string"
  BandWidthValueHz :: "nat \<Rightarrow> nat"
  theoreticalBitrate :: "TunerParametersDVBT \<Rightarrow> nat"
  ioctl :: "request \<Rightarrow> ioctl_reply"
  write_nth :: "nat \<Rightarrow> write_reply"

text \<open>
  What a call does to the outside. \<open>Write off len\<close> is a \<^verbatim>\<open>write\<close> of \<open>len\<close> bytes
  taken at byte offset \<open>off\<close> of the caller's buffer; \<open>Wait t\<close> is
  \<^verbatim>\<open>due_time.wait()\<close> with deadline \<open>t\<close>; \<open>Usleep d\<close> is \<^verbatim>\<open>usleep(d)\<close>.
  \<open>Error\<close> is \<^verbatim>\<open>report.error\<close> with the formatted message. The level-2 log lines and
  the debug line keep their arguments instead of the formatted text.
\<close>

datatype event =
    Ioctl request
  | Write nat nat
  | Wait int
  | Usleep nat
  | Error string
  | Log_precision
  | Log_late int
  | Log_send nat nat
  | Log_write int int nat nat nat
  | Debug_interrupted

subsection \<open>The internal state\<close>

text \<open>The fields of \<^verbatim>\<open>Guts\<close> (the device information is not read by the functions
  below).\<close>

record guts =
  fd :: int
  transmitting :: bool
  bitrate :: nat
  due_time :: int
  pkt_sent :: nat
  all_write :: nat
  fail_write :: nat

text \<open>The public object: the open flag and its \<^verbatim>\<open>Guts\<close>.\<close>

record HiDesDevice =
  is_open :: bool
  the_guts :: guts

subsection \<open>Error text\<close>

definition HiDesErrorMessage :: "env \<Rightarrow> int \<Rightarrow> int \<Rightarrow> string" where
  "HiDesErrorMessage e driver_status errno_status =
     (let msg0 = (if driver_status \<noteq> 0
                  then DVBNameFromSection_HiDesError e \<bar>driver_status\<bar>
                  else [])
      in if errno_status \<noteq> 0 \<and> errno_status \<noteq> driver_status
         then (if msg0 \<noteq> [] then msg0 @ '', '' else msg0) @ ErrorCodeMessage e errno_status
         else msg0)"

text \<open>A control command fails when the call returns a negative value or the driver
  stores a non-zero error in the request.\<close>

definition ioctl_failed :: "ioctl_reply \<Rightarrow> bool" where
  "ioctl_failed r = (ioctl_ret r < 0 \<or> req_error r \<noteq> 0)"

subsection \<open>Tuning\<close>

text \<open>The four \<^verbatim>\<open>switch\<close> statements of \<^verbatim>\<open>tune\<close> that translate the parameters into
  driver codes; \<open>None\<close> is the \<^verbatim>\<open>default\<close> label. The fifth one, on the spectral
  inversion, yields the value of \<^verbatim>\<open>invRequest.isInversion\<close> and of \<^verbatim>\<open>setInversion\<close>.\<close>

fun tune_constellation :: "Modulation \<Rightarrow> Constellation option" where
  "tune_constellation QPSK = Some Mode_QPSK"
| "tune_constellation QAM_16 = Some Mode_16QAM"
| "tune_constellation QAM_64 = Some Mode_64QAM"
| "tune_constellation (Modulation_other v) = None"

fun tune_highCodeRate :: "InnerFEC \<Rightarrow> CodeRate option" where
  "tune_highCodeRate FEC_1_2 = Some CodeRate_1_OVER_2"
| "tune_highCodeRate FEC_2_3 = Some CodeRate_2_OVER_3"
| "tune_highCodeRate FEC_3_4 = Some CodeRate_3_OVER_4"
| "tune_highCodeRate FEC_5_6 = Some CodeRate_5_OVER_6"
| "tune_highCodeRate FEC_7_8 = Some CodeRate_7_OVER_8"
| "tune_highCodeRate (InnerFEC_other v) = None"

fun tune_interval :: "GuardInterval \<Rightarrow> Interval option" where
  "tune_interval GUARD_1_32 = Some Interval_1_OVER_32"
| "tune_interval GUARD_1_16 = Some Interval_1_OVER_16"
| "tune_interval GUARD_1_8 = Some Interval_1_OVER_8"
| "tune_interval GUARD_1_4 = Some Interval_1_OVER_4"
| "tune_interval (GuardInterval_other v) = None"

fun tune_transmissionMode :: "TransmissionMode \<Rightarrow> TxMode option" where
  "tune_transmissionMode TM_2K = Some TransmissionMode_2K"
| "tune_transmissionMode TM_4K = Some TransmissionMode_4K"
| "tune_transmissionMode TM_8K = Some TransmissionMode_8K"
| "tune_transmissionMode (TransmissionMode_other v) = None"

fun tune_inversion :: "SpectralInversion \<Rightarrow> (bool \<times> bool) option" where
  "tune_inversion SPINV_OFF = Some (False, True)"
| "tune_inversion SPINV_ON = Some (True, True)"
| "tune_inversion SPINV_AUTO = Some (False, False)"
| "tune_inversion (SpectralInversion_other v) = None"

text \<open>The three driver calls at the end of \<^verbatim>\<open>tune\<close>, once every parameter is
  translated.\<close>

definition tune_driver ::
  "env \<Rightarrow> HiDesDevice \<Rightarrow> TunerParametersDVBT \<Rightarrow> request \<Rightarrow> request \<Rightarrow> request \<Rightarrow> bool
     \<Rightarrow> bool \<times> HiDesDevice \<times> event list" where
  "tune_driver e d params acqRequest modRequest invRequest setInversion =
     (if ioctl_failed (ioctl e acqRequest) then
        (False, d,
         [Ioctl acqRequest,
          Error (''error setting frequency & bandwidth: '' @
                 HiDesErrorMessage e (req_error (ioctl e acqRequest)) (ioctl_errno (ioctl e acqRequest)))])
      else if ioctl_failed (ioctl e modRequest) then
        (False, d,
         [Ioctl acqRequest, Ioctl modRequest,
          Error (''error setting modulation parameters: '' @
                 HiDesErrorMessage e (req_error (ioctl e modRequest)) (ioctl_errno (ioctl e modRequest)))])
      else if setInversion \<and> ioctl_failed (ioctl e invRequest) then
        (False, d,
         [Ioctl acqRequest, Ioctl modRequest, Ioctl invRequest,
          Error (''error setting spectral inversion: '' @
                 HiDesErrorMessage e (req_error (ioctl e invRequest)) (ioctl_errno (ioctl e invRequest)))])
      else
        (True, d\<lparr>the_guts := (the_guts d)\<lparr>bitrate := theoreticalBitrate e params\<rparr>\<rparr>,
         [Ioctl acqRequest, Ioctl modRequest] @ (if setInversion then [Ioctl invRequest] else [])))"

text \<open>\<^verbatim>\<open>HiDesDevice::tune\<close>. The frequency is cast to 32 bits after the division.\<close>

definition tune :: "env \<Rightarrow> HiDesDevice \<Rightarrow> TunerParametersDVBT \<Rightarrow> bool \<times> HiDesDevice \<times> event list" where
  "tune e d params =
     (if \<not> is_open d then (False, d, [Error ''HiDes device not open''])
      else
        (let acq_frequency = (frequency params div 1000) mod 2 ^ 32;
             acq_bandwidth = BandWidthValueHz e (bandwidth params) div 1000
         in if acq_bandwidth = 0 then (False, d, [Error ''unsupported bandwidth''])
            else
              (case tune_constellation (modulation params) of
                 None \<Rightarrow> (False, d, [Error ''unsupported constellation''])
               | Some constellation \<Rightarrow>
              (case tune_highCodeRate (fec_hp params) of
                 None \<Rightarrow> (False, d, [Error ''unsupported high priority code rate''])
               | Some highCodeRate \<Rightarrow>
              (case tune_interval (guard_interval params) of
                 None \<Rightarrow> (False, d, [Error ''unsupported guard interval''])
               | Some interval \<Rightarrow>
              (case tune_transmissionMode (transmission_mode params) of
                 None \<Rightarrow> (False, d, [Error ''unsupported transmission mode''])
               | Some transmissionMode \<Rightarrow>
              (case tune_inversion (inversion params) of
                 None \<Rightarrow> (False, d, [Error ''unsupported spectral inversion''])
               | Some (isInversion, setInversion) \<Rightarrow>
                   tune_driver e d params
                     (IOCTL_ITE_MOD_ACQUIRECHANNEL acq_frequency acq_bandwidth)
                     (IOCTL_ITE_MOD_SETMODULE constellation highCodeRate interval transmissionMode)
                     (IOCTL_ITE_MOD_SETSPECTRALINVERSION isInversion)
                     setInversion)))))))"

subsection \<open>Starting and stopping the transmission\<close>

definition Guts_startTransmission :: "env \<Rightarrow> guts \<Rightarrow> bool \<times> guts \<times> event list" where
  "Guts_startTransmission e g =
     (let modeRequest = IOCTL_ITE_MOD_ENABLETXMODE 1;
          startRequest = IOCTL_ITE_MOD_STARTTRANSFER
      in if ioctl_failed (ioctl e modeRequest) then
           (False, g,
            [Log_precision, Ioctl modeRequest,
             Error (''error enabling transmission: '' @
                    HiDesErrorMessage e (req_error (ioctl e modeRequest)) (ioctl_errno (ioctl e modeRequest)))])
         else if ioctl_failed (ioctl e startRequest) then
           (False, g,
            [Log_precision, Ioctl modeRequest, Ioctl startRequest,
             Error (''error starting transmission: '' @
                    HiDesErrorMessage e (req_error (ioctl e startRequest)) (ioctl_errno (ioctl e startRequest)))])
         else
           (True, g\<lparr>transmitting := True, pkt_sent := 0, all_write := 0, fail_write := 0\<rparr>,
            [Log_precision, Ioctl modeRequest, Ioctl startRequest]))"

definition startTransmission :: "env \<Rightarrow> HiDesDevice \<Rightarrow> bool \<times> HiDesDevice \<times> event list" where
  "startTransmission e d =
     (if \<not> is_open d then (False, d, [Error ''HiDes device not open''])
      else (case Guts_startTransmission e (the_guts d) of
              (ok, g', tr) \<Rightarrow> (ok, d\<lparr>the_guts := g'\<rparr>, tr)))"

definition Guts_stopTransmission :: "env \<Rightarrow> guts \<Rightarrow> bool \<times> guts \<times> event list" where
  "Guts_stopTransmission e g =
     (let stopRequest = IOCTL_ITE_MOD_STOPTRANSFER;
          modeRequest = IOCTL_ITE_MOD_ENABLETXMODE 0
      in if ioctl_failed (ioctl e stopRequest) then
           (False, g,
            [Ioctl stopRequest,
             Error (''error stopping transmission: '' @
                    HiDesErrorMessage e (req_error (ioctl e stopRequest)) (ioctl_errno (ioctl e stopRequest)))])
         else if ioctl_failed (ioctl e modeRequest) then
           (False, g,
            [Ioctl stopRequest, Ioctl modeRequest,
             Error (''error disabling transmission: '' @
                    HiDesErrorMessage e (req_error (ioctl e modeRequest)) (ioctl_errno (ioctl e modeRequest)))])
         else
           (True, g\<lparr>transmitting := False\<rparr>, [Ioctl stopRequest, Ioctl modeRequest]))"

definition stopTransmission :: "env \<Rightarrow> HiDesDevice \<Rightarrow> bool \<times> HiDesDevice \<times> event list" where
  "stopTransmission e d =
     (if \<not> is_open d then (False, d, [Error ''HiDes device not open''])
      else (case Guts_stopTransmission e (the_guts d) of
              (ok, g', tr) \<Rightarrow> (ok, d\<lparr>the_guts := g'\<rparr>, tr)))"

subsection \<open>Sending packets\<close>

text \<open>The pacing check on entry of \<^verbatim>\<open>Guts::send\<close> (the block under
  \<^verbatim>\<open>if (bitrate != 0)\<close>); \<open>now\<close> is the clock value \<^verbatim>\<open>getSystemTime\<close> reads.\<close>

definition send_entry :: "int \<Rightarrow> guts \<Rightarrow> guts \<times> event list" where
  "send_entry now g =
     (if bitrate g \<noteq> 0 then
        if pkt_sent g = 0 then (g\<lparr>due_time := now\<rparr>, [])
        else if due_time g < now
             then (g\<lparr>due_time := now, pkt_sent := 0\<rparr>, [Log_late (now - due_time g)])
             else (g, [])
      else (g, []))"

text \<open>
  The \<^verbatim>\<open>while (remain > 0)\<close> loop. \<open>data\<close> is the cursor, as a byte offset in the
  caller's buffer; \<open>wn\<close> counts the writes of the call; \<open>tr\<close> collects the events.
  The loop has no bound of its own (an interrupted write is retried without limit), so a
  run that never returns has the value \<open>None\<close>.
  The test \<^verbatim>\<open>errno == EINTR\<close> reads the value the write left, \<open>err\<close>: the log line
  between the two is taken not to change it.
\<close>

partial_function (option) send_loop ::
  "env \<Rightarrow> guts \<Rightarrow> nat \<Rightarrow> nat \<Rightarrow> nat \<Rightarrow> nat \<Rightarrow> event list \<Rightarrow> (bool \<times> guts \<times> event list) option"
where
  "send_loop e g data remain retry_count wn tr =
     (if remain > 0 then
        (let burst = min remain ITE_MAX_SEND_BYTES;
             tr1 = (if retry_count = 0 \<and> bitrate g \<noteq> 0 then tr @ [Wait (due_time g)] else tr);
             status = write_status (write_nth e wn);
             err = write_errno (write_nth e wn);
             g1 = g\<lparr>all_write := (all_write g + 1) mod SIZE_MOD\<rparr>;
             g2 = (if status \<noteq> 0 then g1\<lparr>fail_write := (fail_write g1 + 1) mod SIZE_MOD\<rparr> else g1);
             tr2 = tr1 @ [Write data burst,
                          Log_write status err retry_count (all_write g2) (fail_write g2)]
         in if status = 0 then
              (let g3 = g2\<lparr>pkt_sent := (pkt_sent g2 + burst) mod SIZE_MOD\<rparr>;
                   g4 = (if bitrate g3 \<noteq> 0
                         then g3\<lparr>due_time := due_time g3 +
                                  int (((burst * 8 * PKT_SIZE * NanoSecPerSec) mod SIZE_MOD) div bitrate g3)\<rparr>
                         else g3)
               in send_loop e g4 (data + burst) (remain - burst) 0 (wn + 1) tr2)
            else if err = EINTR then
              send_loop e g2 data remain retry_count (wn + 1) (tr2 @ [Debug_interrupted])
            else if retry_count < max_retry then
              send_loop e g2 data remain (retry_count + 1) (wn + 1) (tr2 @ [Usleep error_delay])
            else
              Some (False, g2, tr2 @ [Error (''error sending data: '' @ HiDesErrorMessage e status err)]))
      else Some (True, g, tr))"

definition Guts_send :: "env \<Rightarrow> int \<Rightarrow> guts \<Rightarrow> nat \<Rightarrow> (bool \<times> guts \<times> event list) option" where
  "Guts_send e now g packet_count =
     (if \<not> transmitting g then Some (False, g, [Error ''transmission not started''])
      else
        (let g1 = fst (send_entry now g);
             tr1 = snd (send_entry now g) @ [Log_send packet_count (bitrate g1)];
             remain = (packet_count * PKT_SIZE) mod SIZE_MOD
         in send_loop e g1 0 remain 0 0 tr1))"

text \<open>\<^verbatim>\<open>HiDesDevice::send\<close>, the public entry.\<close>

definition send :: "env \<Rightarrow> int \<Rightarrow> HiDesDevice \<Rightarrow> nat \<Rightarrow> (bool \<times> HiDesDevice \<times> event list) option" where
  "send e now d packet_count =
     (if \<not> is_open d then Some (False, d, [Error ''HiDes device not open''])
      else (case Guts_send e now (the_guts d) packet_count of
              None \<Rightarrow> None
            | Some (ok, g', tr) \<Rightarrow> Some (ok, d\<lparr>the_guts := g'\<rparr>, tr)))"

subsection \<open>Observations\<close>

text \<open>The events of a trace that are data writes, as (offset, length); those that are
  control commands; and the trace without its log and wait events (the writes, the delays
  between retries and the reported errors, in their order).\<close>

fun writes_of :: "event list \<Rightarrow> (nat \<times> nat) list" where
  "writes_of [] = []"
| "writes_of (Write off len # evs) = (off, len) # writes_of evs"
| "writes_of (_ # evs) = writes_of evs"

fun is_action :: "event \<Rightarrow> bool" where
  "is_action (Write off len) = True"
| "is_action (Usleep d) = True"
| "is_action (Error msg) = True"
| "is_action _ = False"

definition actions_of :: "event list \<Rightarrow> event list" where
  "actions_of tr = filter is_action tr"

fun ioctls_of :: "event list \<Rightarrow> request list" where
  "ioctls_of [] = []"
| "ioctls_of (Ioctl r # evs) = r # ioctls_of evs"
| "ioctls_of (_ # evs) = ioctls_of evs"

text \<open>The session state of the spec, read off the two flags of the object.\<close>

datatype SessionState = Closed | Opened | Transmitting

definition state_of :: "HiDesDevice \<Rightarrow> SessionState" where
  "state_of d = (if \<not> is_open d then Closed
                 else if transmitting (the_guts d) then Transmitting else Opened)"

text \<open>The number of chunks of a request of \<open>remain\<close> bytes.\<close>

definition nchunks :: "nat \<Rightarrow> nat" where
  "nchunks remain = (remain + ITE_MAX_SEND_BYTES - 1) div ITE_MAX_SEND_BYTES"

text \<open>The chunks of a request of \<open>remain\<close> bytes that starts at offset \<open>data\<close>, as
  (offset, length): what the loop sends when every write is accepted at once.\<close>

definition chunks_from :: "nat \<Rightarrow> nat \<Rightarrow> (nat \<times> nat) list" where
  "chunks_from data remain =
     map (\<lambda>i. (data + i * ITE_MAX_SEND_BYTES, min ITE_MAX_SEND_BYTES (remain - i * ITE_MAX_SEND_BYTES)))
       [0..<nchunks remain]"

text \<open>
  The splitting of a request of \<open>packet_count\<close> packets as the spec words it:
  sequential chunks, in order, each of at most \<^verbatim>\<open>ITE_MAX_SEND_PACKETS\<close> packets, only
  the last one possibly smaller. Chunk \<open>i\<close> starts where chunk \<open>i - 1\<close> ends, at
  packet \<open>i * 172\<close>; it has 172 packets when 172 more packets are left, and otherwise
  it is the last chunk and has the \<open>packet_count mod 172\<close> packets that are left. Offsets
  and lengths are in bytes.
\<close>

definition spec_chunks :: "nat \<Rightarrow> (nat \<times> nat) list" where
  "spec_chunks packet_count =
     map (\<lambda>i. (i * ITE_MAX_SEND_PACKETS * PKT_SIZE,
               (if i < packet_count div ITE_MAX_SEND_PACKETS
                then ITE_MAX_SEND_PACKETS
                else packet_count mod ITE_MAX_SEND_PACKETS) * PKT_SIZE))
       [0..<(packet_count + ITE_MAX_SEND_PACKETS - 1) div ITE_MAX_SEND_PACKETS]"

subsection \<open>Replies of the driver before a chunk\<close>

text \<open>
  The replies that let one chunk through, from write number \<open>wn\<close> on: \<open>k\<close> writes with
  a non-zero status, of which at most \<^verbatim>\<open>max_retry\<close> leave a host error other than
  \<^verbatim>\<open>EINTR\<close>, then a write with status zero. \<open>chunks_accepted e wn ks\<close> says so for
  consecutive chunks, chunk \<open>j\<close> being refused \<open>ks ! j\<close> times; the chunk after them
  starts at write number \<open>wn + sum_list ks + length ks\<close>.
\<close>

definition refused_then_accepted :: "env \<Rightarrow> nat \<Rightarrow> nat \<Rightarrow> bool" where
  "refused_then_accepted e wn k =
     (list_all (\<lambda>i. write_status (write_nth e (wn + i)) \<noteq> 0) [0..<k]
      \<and> length (filter (\<lambda>i. write_errno (write_nth e (wn + i)) \<noteq> EINTR) [0..<k]) \<le> max_retry
      \<and> write_status (write_nth e (wn + k)) = 0)"

fun chunks_accepted :: "env \<Rightarrow> nat \<Rightarrow> nat list \<Rightarrow> bool" where
  "chunks_accepted e wn [] = True"
| "chunks_accepted e wn (k # ks) =
     (refused_then_accepted e wn k \<and> chunks_accepted e (Suc (wn + k)) ks)"

text \<open>
  What is expected of the loop on such replies, without the log and wait events: chunk
  \<open>c\<close> is written \<open>k + 1\<close> times, and a delay follows each refused write that is not
  an interrupted one.
\<close>

definition chunk_actions :: "env \<Rightarrow> nat \<Rightarrow> nat \<Rightarrow> nat \<times> nat \<Rightarrow> event list" where
  "chunk_actions e wn k c =
     concat (map (\<lambda>i. Write (fst c) (snd c)
                      # (if write_errno (write_nth e (wn + i)) = EINTR then [] else [Usleep error_delay]))
               [0..<k])
     @ [Write (fst c) (snd c)]"

fun history_actions :: "env \<Rightarrow> nat \<Rightarrow> nat list \<Rightarrow> (nat \<times> nat) list \<Rightarrow> event list" where
  "history_actions e wn (k # ks) (c # cs) =
     chunk_actions e wn k c @ history_actions e (Suc (wn + k)) ks cs"
| "history_actions e wn _ _ = []"

subsection \<open>Concrete environments and states for the examples\<close>

definition ioctl_ok :: ioctl_reply where
  "ioctl_ok = \<lparr>ioctl_ret = 0, req_error = 0, ioctl_errno = 0\<rparr>"

definition all_ok :: "request \<Rightarrow> ioctl_reply" where
  "all_ok r = ioctl_ok"

definition accepting :: "nat \<Rightarrow> write_reply" where
  "accepting n = \<lparr>write_status = 0, write_errno = 0\<rparr>"

definition refusing :: "nat \<Rightarrow> write_reply" where
  "refusing n = \<lparr>write_status = 59, write_errno = 0\<rparr>"

definition refusing_first :: "nat \<Rightarrow> write_reply" where
  "refusing_first n = (if n = 0 then \<lparr>write_status = 59, write_errno = 0\<rparr>
                       else \<lparr>write_status = 0, write_errno = 0\<rparr>)"

definition accepting_first :: "nat \<Rightarrow> write_reply" where
  "accepting_first n = (if n = 0 then \<lparr>write_status = 0, write_errno = 0\<rparr>
                        else \<lparr>write_status = 59, write_errno = 11\<rparr>)"

definition accepting_second :: "nat \<Rightarrow> write_reply" where
  "accepting_second n = (if n = 1 then \<lparr>write_status = 0, write_errno = 0\<rparr>
                         else \<lparr>write_status = 59, write_errno = 11\<rparr>)"

definition mock_env :: "(request \<Rightarrow> ioctl_reply) \<Rightarrow> (nat \<Rightarrow> write_reply) \<Rightarrow> env" where
  "mock_env c w =
     \<lparr>DVBNameFromSection_HiDesError = (\<lambda>v. ''HiDes error''),
      ErrorCodeMessage = (\<lambda>v. ''host error''),
      BandWidthValueHz = (\<lambda>b. if b = 1 then 8000000 else 0),
      theoreticalBitrate = (\<lambda>p. 4976470),
      ioctl = c,
      write_nth = w\<rparr>"

text \<open>A transmitting state without pacing, and one with pacing that has sent before.\<close>

definition guts0 :: guts where
  "guts0 = \<lparr>fd = 3, transmitting = True, bitrate = 0, due_time = 0, pkt_sent = 0,
            all_write = 0, fail_write = 0\<rparr>"

definition guts1 :: guts where
  "guts1 = \<lparr>fd = 3, transmitting = True, bitrate = 8000000, due_time = 1000, pkt_sent = 188,
            all_write = 7, fail_write = 2\<rparr>"

text \<open>An opened state that is not transmitting and holds a due time from an earlier
  transmission.\<close>

definition guts_stale :: guts where
  "guts_stale = \<lparr>fd = 3, transmitting = False, bitrate = 0, due_time = 1000000000000000,
                 pkt_sent = 188, all_write = 7, fail_write = 2\<rparr>"

definition params0 :: TunerParametersDVBT where
  "params0 = \<lparr>frequency = 474000000, bandwidth = 1, modulation = QAM_64, fec_hp = FEC_2_3,
              guard_interval = GUARD_1_32, transmission_mode = TM_8K, inversion = SPINV_AUTO\<rparr>"

section \<open>Properties\<close>

subsection \<open>Traces and arithmetic\<close>

lemma writes_of_append: "writes_of (xs @ ys) = writes_of xs @ writes_of ys"
  by (induction xs rule: writes_of.induct) simp_all

lemma actions_of_append: "actions_of (xs @ ys) = actions_of xs @ actions_of ys"
  by (simp add: actions_of_def)

lemma send_entry_frame:
  "all_write (fst (send_entry now g)) = all_write g"
  "fail_write (fst (send_entry now g)) = fail_write g"
  "transmitting (fst (send_entry now g)) = transmitting g"
  "bitrate (fst (send_entry now g)) = bitrate g"
  "fd (fst (send_entry now g)) = fd g"
  "writes_of (snd (send_entry now g)) = []"
  "actions_of (snd (send_entry now g)) = []"
  by (simp_all add: send_entry_def actions_of_def)

lemma mod_step: "Suc (Suc a mod m + k) mod m = Suc (Suc (a + k)) mod m"
proof -
  have "Suc (Suc a mod m + k) mod m = (Suc a mod m + Suc k) mod m" by simp
  also have "\<dots> = (Suc a + Suc k) mod m" by (rule mod_add_left_eq)
  finally show ?thesis by simp
qed

lemma max_bytes_pos: "0 < ITE_MAX_SEND_BYTES"
  by (simp add: ITE_MAX_SEND_BYTES_def ITE_MAX_SEND_PACKETS_def)

lemma ceil_div_small:
  fixes m n :: nat
  assumes "0 < n" "n \<le> m"
  shows "(n + m - 1) div m = 1"
proof -
  have a: "n + m - 1 = (n - 1) + m" using assms by arith
  have b: "n - 1 < m" using assms by arith
  have "m \<noteq> 0" using assms by arith
  then have "((n - 1) + m) div m = Suc ((n - 1) div m)"
    by (simp add: div_add_self2)
  with b show ?thesis unfolding a by simp
qed

lemma ceil_div_large:
  fixes m n :: nat
  assumes "0 < m" "m < n"
  shows "(n + m - 1) div m = Suc ((n - m + m - 1) div m)"
proof -
  have a: "n + m - 1 = (n - 1) + m" using assms by arith
  have b: "n - m + m - 1 = n - 1" using assms by arith
  have "m \<noteq> 0" using assms by arith
  then have "((n - 1) + m) div m = Suc ((n - 1) div m)"
    by (simp add: div_add_self2)
  then show ?thesis unfolding a b .
qed

lemma ceil_div_step:
  fixes m n :: nat
  assumes "0 < m" "0 < n"
  shows "(n + m - 1) div m = Suc ((n - min n m + m - 1) div m)"
proof (cases "n \<le> m")
  case True
  then have "n - min n m = 0" by simp
  moreover have "(0 + m - 1) div m = 0" using assms(1) by simp
  ultimately show ?thesis using ceil_div_small [OF assms(2) True] by simp
next
  case False
  then have "min n m = m" "m < n" by simp_all
  then show ?thesis using ceil_div_large [OF assms(1), of n] by simp
qed

lemma ceil_div_le:
  fixes n c :: nat
  assumes "0 < c"
  shows "(n + c - 1) div c \<le> Suc (n div c)"
proof -
  have "(n + c - 1) div c \<le> (n + c) div c" by (rule div_le_mono) simp
  also have "\<dots> = Suc (n div c)" using assms by (simp add: div_add_self2)
  finally show ?thesis .
qed

lemma chunk_len:
  fixes n i c :: nat
  assumes "0 < c" and "i < (n + c - 1) div c"
  shows "min c (n - i * c) = (if i < n div c then c else n mod c)"
proof (cases "i < n div c")
  case True
  then have "Suc i \<le> n div c" by simp
  then have "Suc i * c \<le> (n div c) * c" by (rule mult_le_mono1)
  also have "\<dots> \<le> n" by simp
  finally have "c \<le> n - i * c" by simp
  with True show ?thesis by simp
next
  case False
  with assms(2) ceil_div_le [OF assms(1), of n] have "i = n div c" by simp
  then have "n - i * c = n mod c" by (simp add: minus_div_mult_eq_mod)
  moreover have "n mod c < c" using assms(1) by simp
  ultimately show ?thesis using False by simp
qed

lemma ceil_div_scale:
  fixes n c p :: nat
  assumes "0 < c" "0 < p"
  shows "(n * p + c * p - 1) div (c * p) = (n + c - 1) div c"
proof -
  obtain k where k: "n + c = Suc k" using assms(1) by (cases "n + c") simp_all
  obtain q where q: "p = Suc q" using assms(2) by (cases p) simp_all
  have "n * p + c * p = Suc k * p" using k by (simp add: add_mult_distrib [symmetric])
  then have "n * p + c * p - 1 = q + k * p" using q by simp
  moreover have "q < p" using q by simp
  then have "(q + k * p) div p = k" using assms(2) by simp
  ultimately have "(n * p + c * p - 1) div p = n + c - 1" using k by simp
  moreover have "(n * p + c * p - 1) div (c * p) = ((n * p + c * p - 1) div p) div c"
    unfolding mult.commute [of c p] by (rule div_mult2_eq)
  ultimately show ?thesis by simp
qed

lemma nchunks_0: "nchunks 0 = 0"
  using max_bytes_pos by (simp add: nchunks_def)

lemma nchunks_step:
  assumes "0 < remain"
  shows "nchunks remain = Suc (nchunks (remain - min remain ITE_MAX_SEND_BYTES))"
  unfolding nchunks_def by (rule ceil_div_step [OF max_bytes_pos assms])

lemma chunk_bytes:
  assumes "i < (n + ITE_MAX_SEND_PACKETS - 1) div ITE_MAX_SEND_PACKETS"
  shows "min ITE_MAX_SEND_BYTES (n * PKT_SIZE - i * ITE_MAX_SEND_BYTES) =
         (if i < n div ITE_MAX_SEND_PACKETS then ITE_MAX_SEND_PACKETS else n mod ITE_MAX_SEND_PACKETS) * PKT_SIZE"
proof -
  have c: "0 < ITE_MAX_SEND_PACKETS" by (simp add: ITE_MAX_SEND_PACKETS_def)
  have b: "ITE_MAX_SEND_BYTES = ITE_MAX_SEND_PACKETS * PKT_SIZE"
    by (simp add: ITE_MAX_SEND_BYTES_def PKT_SIZE_def)
  have "n * PKT_SIZE - i * ITE_MAX_SEND_BYTES = (n - i * ITE_MAX_SEND_PACKETS) * PKT_SIZE"
    unfolding b by (simp add: diff_mult_distrib)
  then have "min ITE_MAX_SEND_BYTES (n * PKT_SIZE - i * ITE_MAX_SEND_BYTES)
      = min ITE_MAX_SEND_PACKETS (n - i * ITE_MAX_SEND_PACKETS) * PKT_SIZE"
    unfolding b by (simp add: nat_mult_min_left)
  then show ?thesis unfolding chunk_len [OF c assms] .
qed

lemma nchunks_packets:
  "nchunks (n * PKT_SIZE) = (n + ITE_MAX_SEND_PACKETS - 1) div ITE_MAX_SEND_PACKETS"
proof -
  have c: "0 < ITE_MAX_SEND_PACKETS" by (simp add: ITE_MAX_SEND_PACKETS_def)
  have p: "0 < PKT_SIZE" by (simp add: PKT_SIZE_def)
  have b: "ITE_MAX_SEND_BYTES = ITE_MAX_SEND_PACKETS * PKT_SIZE"
    by (simp add: ITE_MAX_SEND_BYTES_def PKT_SIZE_def)
  show ?thesis unfolding nchunks_def b by (rule ceil_div_scale [OF c p])
qed

lemma chunks_from_0: "chunks_from data 0 = []"
  by (simp add: chunks_from_def nchunks_0)

lemma chunks_from_step:
  assumes "0 < remain"
  shows "chunks_from data remain =
     (data, min remain ITE_MAX_SEND_BYTES)
       # chunks_from (data + min remain ITE_MAX_SEND_BYTES) (remain - min remain ITE_MAX_SEND_BYTES)"
proof -
  define burst where "burst = min remain ITE_MAX_SEND_BYTES"
  have nc: "nchunks remain = Suc (nchunks (remain - burst))"
    using nchunks_step [OF assms] by (simp add: burst_def)
  have tail: "map (\<lambda>i. (data + burst + i * ITE_MAX_SEND_BYTES,
                      min ITE_MAX_SEND_BYTES (remain - burst - i * ITE_MAX_SEND_BYTES)))
             [0..<nchunks (remain - burst)]
        = map (\<lambda>i. (data + Suc i * ITE_MAX_SEND_BYTES,
                      min ITE_MAX_SEND_BYTES (remain - Suc i * ITE_MAX_SEND_BYTES)))
             [0..<nchunks (remain - burst)]"
  proof (cases "remain \<le> ITE_MAX_SEND_BYTES")
    case True
    then have "remain - burst = 0" by (simp add: burst_def)
    then show ?thesis by (simp add: nchunks_0)
  next
    case False
    then have "burst = ITE_MAX_SEND_BYTES" by (simp add: burst_def)
    then show ?thesis by (simp add: add.assoc)
  qed
  show ?thesis
    unfolding chunks_from_def burst_def [symmetric] nc map_upt_Suc tail
    by (simp add: burst_def min.commute)
qed

lemma chunks_from_packets: "chunks_from 0 (n * PKT_SIZE) = spec_chunks n"
proof -
  have b: "ITE_MAX_SEND_BYTES = ITE_MAX_SEND_PACKETS * PKT_SIZE"
    by (simp add: ITE_MAX_SEND_BYTES_def PKT_SIZE_def)
  show ?thesis
    unfolding chunks_from_def spec_chunks_def nchunks_packets
    by (simp add: chunk_bytes) (simp add: b mult.assoc)
qed

lemma length_spec_chunks: "length (spec_chunks n) = nchunks (n * PKT_SIZE)"
  by (simp add: spec_chunks_def nchunks_packets)

lemma nchunks_le_1:
  assumes "remain \<le> ITE_MAX_SEND_BYTES"
  shows "nchunks remain \<le> 1"
proof (cases "remain = 0")
  case True
  then show ?thesis by (simp add: nchunks_0)
next
  case False
  then have "0 < remain" by simp
  from nchunks_step [OF this] assms show ?thesis by (simp add: min_def nchunks_0)
qed

lemma nchunks_offset:
  assumes "m < nchunks remain"
  shows "m * ITE_MAX_SEND_BYTES < remain"
proof -
  have "Suc m \<le> (remain + ITE_MAX_SEND_BYTES - 1) div ITE_MAX_SEND_BYTES"
    using assms by (simp add: nchunks_def)
  then have "Suc m * ITE_MAX_SEND_BYTES \<le> remain + ITE_MAX_SEND_BYTES - 1"
    using max_bytes_pos by (simp only: less_eq_div_iff_mult_less_eq)
  then show ?thesis using max_bytes_pos by simp
qed

lemma chunks_from_nth:
  assumes "m < nchunks remain"
  shows "chunks_from data remain ! m =
    (data + m * ITE_MAX_SEND_BYTES, min (remain - m * ITE_MAX_SEND_BYTES) ITE_MAX_SEND_BYTES)"
  using assms by (simp add: chunks_from_def min.commute)

lemma chunks_from_cover: "sum_list (map snd (chunks_from data remain)) = remain"
proof (induction remain arbitrary: data rule: less_induct)
  case (less remain)
  show ?case
  proof (cases "remain = 0")
    case True
    then show ?thesis by (simp add: chunks_from_0)
  next
    case False
    then have pos: "0 < remain" by simp
    then have "remain - min remain ITE_MAX_SEND_BYTES < remain"
      using max_bytes_pos by simp
    from less.IH [OF this] show ?thesis
      unfolding chunks_from_step [OF pos, of data] by simp
  qed
qed

lemma spec_chunks_cover: "sum_list (map snd (spec_chunks n)) = n * PKT_SIZE"
  unfolding chunks_from_packets [symmetric] by (rule chunks_from_cover)

lemma ceil_div_exact:
  fixes n c :: nat
  assumes "0 < c" and "n mod c = 0"
  shows "(n + c - 1) div c = n div c"
proof -
  have "c dvd n" using assms(2) by (simp add: dvd_eq_mod_eq_0)
  then obtain q where q: "n = q * c" by (auto simp add: dvd_def mult.commute)
  obtain k where k: "c = Suc k" using assms(1) by (cases c) simp_all
  have "n + c - 1 = k + q * c" using q k by simp
  moreover have "k < c" using k by simp
  then have "(k + q * c) div c = q" using assms(1) by simp
  ultimately show ?thesis using q assms(1) by simp
qed

lemma spec_chunks_nth:
  assumes "i < length (spec_chunks n)"
  shows "spec_chunks n ! i =
    (i * ITE_MAX_SEND_PACKETS * PKT_SIZE,
     (if i < n div ITE_MAX_SEND_PACKETS then ITE_MAX_SEND_PACKETS else n mod ITE_MAX_SEND_PACKETS)
       * PKT_SIZE)"
  using assms by (simp add: spec_chunks_def)

text \<open>The list the definition gives is a splitting as the words say: every chunk has at
  least one packet and at most 172, every chunk but the last has 172, each chunk starts
  where the chunks before it end, and together they are the whole request.\<close>

lemma spec_chunks_sizes:
  assumes "i < length (spec_chunks n)"
  shows "0 < snd (spec_chunks n ! i)"
    and "snd (spec_chunks n ! i) \<le> ITE_MAX_SEND_PACKETS * PKT_SIZE"
    and "Suc i < length (spec_chunks n) \<Longrightarrow> snd (spec_chunks n ! i) = ITE_MAX_SEND_PACKETS * PKT_SIZE"
proof -
  have c: "0 < ITE_MAX_SEND_PACKETS" by (simp add: ITE_MAX_SEND_PACKETS_def)
  have p: "0 < PKT_SIZE" by (simp add: PKT_SIZE_def)
  have len: "length (spec_chunks n) = (n + ITE_MAX_SEND_PACKETS - 1) div ITE_MAX_SEND_PACKETS"
    by (simp add: spec_chunks_def)
  show "0 < snd (spec_chunks n ! i)"
  proof (cases "i < n div ITE_MAX_SEND_PACKETS")
    case True
    then show ?thesis using c p by (simp add: spec_chunks_nth [OF assms])
  next
    case False
    have "n mod ITE_MAX_SEND_PACKETS \<noteq> 0"
    proof
      assume "n mod ITE_MAX_SEND_PACKETS = 0"
      from ceil_div_exact [OF c this] assms len False show False by simp
    qed
    then show ?thesis using False p by (simp add: spec_chunks_nth [OF assms])
  qed
  show "snd (spec_chunks n ! i) \<le> ITE_MAX_SEND_PACKETS * PKT_SIZE"
    using c by (simp add: spec_chunks_nth [OF assms] less_imp_le)
  show "snd (spec_chunks n ! i) = ITE_MAX_SEND_PACKETS * PKT_SIZE" if "Suc i < length (spec_chunks n)"
  proof -
    from that len ceil_div_le [OF c, of n] have "i < n div ITE_MAX_SEND_PACKETS" by simp
    then show ?thesis by (simp add: spec_chunks_nth [OF assms])
  qed
qed

lemma spec_chunks_contiguous:
  assumes "i < length (spec_chunks n)"
  shows "fst (spec_chunks n ! i) = sum_list (map snd (take i (spec_chunks n)))"
proof -
  have full: "snd (spec_chunks n ! j) = ITE_MAX_SEND_PACKETS * PKT_SIZE" if "j < i" for j
    using that assms by (intro spec_chunks_sizes(3)) simp_all
  have "map snd (take i (spec_chunks n)) = replicate i (ITE_MAX_SEND_PACKETS * PKT_SIZE)"
    using assms full by (intro nth_equalityI) simp_all
  then show ?thesis by (simp add: spec_chunks_nth [OF assms] sum_list_replicate)
qed

subsection \<open>The write loop\<close>

lemma send_loop_accept:
  assumes "0 < remain" and "write_status (write_nth e wn) = 0"
  shows "send_loop e g data remain r wn tr =
    send_loop e
      (g\<lparr>all_write := (all_write g + 1) mod SIZE_MOD,
         pkt_sent := (pkt_sent g + min remain ITE_MAX_SEND_BYTES) mod SIZE_MOD,
         due_time := (if bitrate g \<noteq> 0
                      then due_time g + int (((min remain ITE_MAX_SEND_BYTES * 8 * PKT_SIZE * NanoSecPerSec)
                                               mod SIZE_MOD) div bitrate g)
                      else due_time g)\<rparr>)
      (data + min remain ITE_MAX_SEND_BYTES) (remain - min remain ITE_MAX_SEND_BYTES) 0 (Suc wn)
      ((if r = 0 \<and> bitrate g \<noteq> 0 then tr @ [Wait (due_time g)] else tr)
        @ [Write data (min remain ITE_MAX_SEND_BYTES),
           Log_write 0 (write_errno (write_nth e wn)) r ((all_write g + 1) mod SIZE_MOD) (fail_write g)])"
  using assms by (subst send_loop.simps) (simp add: Let_def)

lemma send_loop_accepted:
  assumes "\<forall>i < nchunks remain. write_status (write_nth e (wn + i)) = 0"
  shows "\<exists>g' tr'. send_loop e g data remain r wn tr = Some (True, g', tr')
      \<and> writes_of tr' = writes_of tr @ chunks_from data remain"
  using assms
proof (induction remain arbitrary: g data r wn tr rule: less_induct)
  case (less remain)
  show ?case
  proof (cases "remain = 0")
    case True
    then show ?thesis
      by (subst send_loop.simps) (simp add: chunks_from_0)
  next
    case False
    then have pos: "0 < remain" by simp
    define burst where "burst = min remain ITE_MAX_SEND_BYTES"
    have bpos: "0 < burst" using pos max_bytes_pos by (simp add: burst_def)
    have nc: "nchunks remain = Suc (nchunks (remain - burst))"
      using nchunks_step [OF pos] by (simp add: burst_def)
    have ch: "chunks_from data remain = (data, burst) # chunks_from (data + burst) (remain - burst)"
      using chunks_from_step [OF pos] by (simp add: burst_def)
    have w0: "write_status (write_nth e wn) = 0"
      using less.prems nc by (metis add.right_neutral zero_less_Suc)
    have rest: "\<forall>i < nchunks (remain - burst). write_status (write_nth e (Suc wn + i)) = 0"
      using less.prems nc by (metis Suc_less_eq add_Suc_shift)
    define g4 where "g4 = g\<lparr>all_write := (all_write g + 1) mod SIZE_MOD,
        pkt_sent := (pkt_sent g + burst) mod SIZE_MOD,
        due_time := (if bitrate g \<noteq> 0
                     then due_time g + int (((burst * 8 * PKT_SIZE * NanoSecPerSec) mod SIZE_MOD) div bitrate g)
                     else due_time g)\<rparr>"
    define tr2 where "tr2 = (if r = 0 \<and> bitrate g \<noteq> 0 then tr @ [Wait (due_time g)] else tr)
        @ [Write data burst,
           Log_write 0 (write_errno (write_nth e wn)) r ((all_write g + 1) mod SIZE_MOD) (fail_write g)]"
    have step: "send_loop e g data remain r wn tr = send_loop e g4 (data + burst) (remain - burst) 0 (Suc wn) tr2"
      unfolding g4_def tr2_def burst_def by (rule send_loop_accept [OF pos w0])
    have w2: "writes_of tr2 = writes_of tr @ [(data, burst)]"
      by (simp add: tr2_def writes_of_append)
    have "remain - burst < remain" using pos bpos by simp
    from less.IH [OF this rest, of g4 "data + burst" 0 tr2]
    obtain g' tr' where
      res: "send_loop e g4 (data + burst) (remain - burst) 0 (Suc wn) tr2 = Some (True, g', tr')"
      and wr: "writes_of tr' = writes_of tr2 @ chunks_from (data + burst) (remain - burst)"
      by blast
    have "writes_of tr' = writes_of tr @ chunks_from data remain"
      unfolding wr w2 ch by simp
    with step res show ?thesis by simp
  qed
qed

text \<open>What a run of the loop writes, whatever the driver replies: repetitions of a chunk
  apart, the first chunks of the rest of the request, all of them when it succeeds.\<close>

lemma send_loop_writes:
  assumes "send_loop e g data remain r wn tr = Some res"
  shows "\<exists>ws k. writes_of (snd (snd res)) = writes_of tr @ ws
           \<and> remdups_adj ws = take k (chunks_from data remain)
           \<and> k \<le> nchunks remain
           \<and> (if fst res then k = nchunks remain else True)"
  using assms
proof (induction e g data remain r wn tr res rule: send_loop.raw_induct [rotated 1, consumes 1])
  case (1 send_loop e g data remain retry_count wn tr res)
  show ?case
  proof (cases "0 < remain")
    case False
    with 1(2) show ?thesis
      by (auto simp add: nchunks_0 chunks_from_0 intro!: exI [of _ "[]"])
  next
    case True
    define burst where "burst = min remain ITE_MAX_SEND_BYTES"
    have bpos: "0 < burst" using True max_bytes_pos by (simp add: burst_def)
    define status where "status = write_status (write_nth e wn)"
    define err where "err = write_errno (write_nth e wn)"
    define g2 where "g2 = (if status \<noteq> 0
        then g\<lparr>all_write := (all_write g + 1) mod SIZE_MOD,
               fail_write := (fail_write g + 1) mod SIZE_MOD\<rparr>
        else g\<lparr>all_write := (all_write g + 1) mod SIZE_MOD\<rparr>)"
    define tr2 where "tr2 = (if retry_count = 0 \<and> bitrate g \<noteq> 0 then tr @ [Wait (due_time g)] else tr)
        @ [Write data burst, Log_write status err retry_count (all_write g2) (fail_write g2)]"
    have w2: "writes_of tr2 = writes_of tr @ [(data, burst)]"
      by (simp add: tr2_def writes_of_append)
    have ch: "chunks_from data remain = (data, burst) # chunks_from (data + burst) (remain - burst)"
      using chunks_from_step [OF True] by (simp add: burst_def)
    have nc: "nchunks remain = Suc (nchunks (remain - burst))"
      using nchunks_step [OF True] by (simp add: burst_def)
    have retry: ?thesis
      if rec: "send_loop e g2 data remain rc' (wn + 1) tr3 = Some res"
        and w3: "writes_of tr3 = writes_of tr2" for rc' tr3
    proof -
      from 1(1) [OF rec] obtain ws k where
        a: "writes_of (snd (snd res)) = writes_of tr3 @ ws"
        and b: "remdups_adj ws = take k (chunks_from data remain)"
        and c: "k \<le> nchunks remain"
        and d: "if fst res then k = nchunks remain else True"
        by blast
      show ?thesis
      proof (cases ws)
        case Nil
        with b have "k = 0 \<or> chunks_from data remain = []" by simp
        with ch have k0: "k = 0" by simp
        with d nc have nf: "\<not> fst res" by (auto split: if_splits)
        have "writes_of (snd (snd res)) = writes_of tr @ [(data, burst)]"
          using a Nil w3 w2 by simp
        moreover have "take 1 (chunks_from data remain) = [(data, burst)]"
          using ch by simp
        moreover have "1 \<le> nchunks remain" using nc by simp
        ultimately show ?thesis using nf by (intro exI [of _ "[(data, burst)]"] exI [of _ 1]) simp
      next
        case (Cons w ws')
        have "k \<noteq> 0" using b Cons by (cases k) simp_all
        then have "hd (take k (chunks_from data remain)) = (data, burst)"
          using ch by (cases k) simp_all
        moreover have "hd (remdups_adj ws) = w" using Cons by (simp add: hd_remdups_adj)
        ultimately have "w = (data, burst)" using b by simp
        with Cons have "remdups_adj ((data, burst) # ws) = remdups_adj ws" by simp
        moreover have "writes_of (snd (snd res)) = writes_of tr @ (data, burst) # ws"
          using a w3 w2 by simp
        ultimately show ?thesis using b c d
          by (intro exI [of _ "(data, burst) # ws"] exI [of _ k]) simp
      qed
    qed
    show ?thesis
    proof (cases "status = 0")
      case True
      define g4 where "g4 = (let g3 = g2\<lparr>pkt_sent := (pkt_sent g2 + burst) mod SIZE_MOD\<rparr>
          in if bitrate g3 \<noteq> 0
             then g3\<lparr>due_time := due_time g3 +
                      int (((burst * 8 * PKT_SIZE * NanoSecPerSec) mod SIZE_MOD) div bitrate g3)\<rparr>
             else g3)"
      have rec: "send_loop e g4 (data + burst) (remain - burst) 0 (wn + 1) tr2 = Some res"
        using 1(2) \<open>0 < remain\<close> True
        by (auto simp add: Let_def burst_def status_def err_def g2_def tr2_def g4_def split: if_splits)
      from 1(1) [OF rec] obtain ws k where
        a: "writes_of (snd (snd res)) = writes_of tr2 @ ws"
        and b: "remdups_adj ws = take k (chunks_from (data + burst) (remain - burst))"
        and c: "k \<le> nchunks (remain - burst)"
        and d: "if fst res then k = nchunks (remain - burst) else True"
        by blast
      have hd_ne: "ws = [] \<or> hd ws \<noteq> (data, burst)"
      proof (cases ws)
        case Nil
        then show ?thesis by simp
      next
        case (Cons w ws')
        then have "hd (remdups_adj ws) = w" by (simp add: hd_remdups_adj)
        with b Cons have "w = hd (take k (chunks_from (data + burst) (remain - burst)))" by simp
        moreover have "take k (chunks_from (data + burst) (remain - burst)) \<noteq> []"
          using b Cons by (metis list.distinct(1) remdups_adj_Nil_iff)
        then have kpos: "0 < k" and cne: "chunks_from (data + burst) (remain - burst) \<noteq> []"
          by (auto intro!: gr0I)
        have "remain - burst \<noteq> 0"
        proof
          assume "remain - burst = 0"
          then have "chunks_from (data + burst) (remain - burst) = []"
            by (simp only: chunks_from_0)
          with cne show False by simp
        qed
        with kpos have "0 < k" "0 < remain - burst" by simp_all
        then have "hd (take k (chunks_from (data + burst) (remain - burst)))
            = (data + burst, min (remain - burst) ITE_MAX_SEND_BYTES)"
          using chunks_from_step [of "remain - burst" "data + burst"] by (cases k) simp_all
        ultimately show ?thesis using Cons bpos by simp
      qed
      then have "remdups_adj ((data, burst) # ws) = (data, burst) # remdups_adj ws"
        by (cases ws) auto
      then have "remdups_adj ((data, burst) # ws) = take (Suc k) (chunks_from data remain)"
        using b ch by simp
      moreover have "writes_of (snd (snd res)) = writes_of tr @ (data, burst) # ws"
        using a w2 by simp
      ultimately show ?thesis using c d nc
        by (intro exI [of _ "(data, burst) # ws"] exI [of _ "Suc k"]) (simp split: if_splits)
    next
      case False
      show ?thesis
      proof (cases "err = EINTR")
        case True
        have "send_loop e g2 data remain retry_count (wn + 1) (tr2 @ [Debug_interrupted]) = Some res"
          using 1(2) \<open>0 < remain\<close> False True
          by (simp add: Let_def burst_def status_def err_def g2_def tr2_def)
        then show ?thesis by (rule retry) (simp add: writes_of_append)
      next
        case noint: False
        show ?thesis
        proof (cases "retry_count < max_retry")
          case True
          have "send_loop e g2 data remain (retry_count + 1) (wn + 1) (tr2 @ [Usleep error_delay]) = Some res"
            using 1(2) \<open>0 < remain\<close> False noint True
            by (simp add: Let_def burst_def status_def err_def g2_def tr2_def)
          then show ?thesis by (rule retry) (simp add: writes_of_append)
        next
          case giveup: False
          have "res = (False, g2, tr2 @ [Error (''error sending data: '' @ HiDesErrorMessage e status err)])"
            using 1(2) \<open>0 < remain\<close> False noint giveup
            by (simp add: Let_def burst_def status_def err_def g2_def tr2_def)
          then have "writes_of (snd (snd res)) = writes_of tr @ [(data, burst)]" "\<not> fst res"
            by (simp_all add: writes_of_append w2)
          moreover have "take 1 (chunks_from data remain) = [(data, burst)]"
            using ch by simp
          moreover have "1 \<le> nchunks remain" using nc by simp
          ultimately show ?thesis by (intro exI [of _ "[(data, burst)]"] exI [of _ 1]) simp
        qed
      qed
    qed
  qed
qed

lemma send_loop_retry:
  assumes "0 < remain"
    and "r + k = max_retry"
    and "\<forall>i\<le>k. write_status (write_nth e (wn + i)) \<noteq> 0 \<and> write_errno (write_nth e (wn + i)) \<noteq> EINTR"
  shows "\<exists>tr'. send_loop e g data remain r wn tr =
        Some (False,
              g\<lparr>all_write := (all_write g + Suc k) mod SIZE_MOD,
                fail_write := (fail_write g + Suc k) mod SIZE_MOD\<rparr>,
              tr')
      \<and> actions_of tr' = actions_of tr
           @ concat (replicate k [Write data (min remain ITE_MAX_SEND_BYTES), Usleep error_delay])
           @ [Write data (min remain ITE_MAX_SEND_BYTES),
              Error (''error sending data: '' @
                     HiDesErrorMessage e (write_status (write_nth e (wn + k)))
                       (write_errno (write_nth e (wn + k))))]"
  using assms
proof (induction k arbitrary: r wn g tr)
  case 0
  then show ?case
    by (subst send_loop.simps) (simp add: Let_def actions_of_def)
next
  case (Suc k)
  have r: "r < max_retry" "Suc r + k = max_retry" using Suc.prems(2) by simp_all
  have w0: "write_status (write_nth e wn) \<noteq> 0" "write_errno (write_nth e wn) \<noteq> EINTR"
    using Suc.prems(3) by (metis add.right_neutral le0)+
  have rest: "\<forall>i\<le>k. write_status (write_nth e (Suc wn + i)) \<noteq> 0 \<and> write_errno (write_nth e (Suc wn + i)) \<noteq> EINTR"
    using Suc.prems(3) by (metis Suc_le_mono add_Suc_shift)
  note IH = Suc.IH [OF Suc.prems(1) r(2) rest]
  define g2 where "g2 = g\<lparr>all_write := (all_write g + 1) mod SIZE_MOD,
                         fail_write := (fail_write g + 1) mod SIZE_MOD\<rparr>"
  define tr2 where "tr2 = (if r = 0 \<and> bitrate g \<noteq> 0 then tr @ [Wait (due_time g)] else tr)
      @ [Write data (min remain ITE_MAX_SEND_BYTES),
         Log_write (write_status (write_nth e wn)) (write_errno (write_nth e wn)) r
           (all_write g2) (fail_write g2),
         Usleep error_delay]"
  have step: "send_loop e g data remain r wn tr = send_loop e g2 data remain (Suc r) (Suc wn) tr2"
    using Suc.prems(1) r(1) w0
    by (subst send_loop.simps) (simp add: Let_def g2_def tr2_def)
  from IH [of g2 tr2] obtain tr' where
    res: "send_loop e g2 data remain (Suc r) (Suc wn) tr2 =
        Some (False,
              g2\<lparr>all_write := (all_write g2 + Suc k) mod SIZE_MOD,
                 fail_write := (fail_write g2 + Suc k) mod SIZE_MOD\<rparr>,
              tr')"
    and ac: "actions_of tr' = actions_of tr2
           @ concat (replicate k [Write data (min remain ITE_MAX_SEND_BYTES), Usleep error_delay])
           @ [Write data (min remain ITE_MAX_SEND_BYTES),
              Error (''error sending data: '' @
                     HiDesErrorMessage e (write_status (write_nth e (Suc wn + k)))
                       (write_errno (write_nth e (Suc wn + k))))]"
    by blast
  have a2: "actions_of tr2 = actions_of tr @ [Write data (min remain ITE_MAX_SEND_BYTES), Usleep error_delay]"
    by (simp add: tr2_def actions_of_def)
  have g3: "g2\<lparr>all_write := (all_write g2 + Suc k) mod SIZE_MOD,
               fail_write := (fail_write g2 + Suc k) mod SIZE_MOD\<rparr>
          = g\<lparr>all_write := (all_write g + Suc (Suc k)) mod SIZE_MOD,
              fail_write := (fail_write g + Suc (Suc k)) mod SIZE_MOD\<rparr>"
    by (simp add: g2_def mod_step)
  show ?case
    using step res ac a2 g3 by simp
qed

lemma upt_0_Suc: "[0..<Suc k] = 0 # map Suc [0..<k]"
  by (simp add: upt_conv_Cons map_Suc_upt del: upt_Suc)

lemma count_upt_Suc:
  "length (filter Q [0..<Suc k]) = (if Q 0 then 1 else 0) + length (filter (\<lambda>i. Q (Suc i)) [0..<k])"
  unfolding upt_0_Suc by (simp add: filter_map o_def)

lemma chunk_actions_0: "chunk_actions e wn 0 c = [Write (fst c) (snd c)]"
  by (simp add: chunk_actions_def)

lemma chunk_actions_Suc:
  "chunk_actions e wn (Suc k) c =
     (Write (fst c) (snd c)
        # (if write_errno (write_nth e wn) = EINTR then [] else [Usleep error_delay]))
     @ chunk_actions e (Suc wn) k c"
  unfolding chunk_actions_def upt_0_Suc by (simp add: o_def)

text \<open>One chunk: \<open>k\<close> refused writes, at most \<open>max_retry - r\<close> of them with a host error
  other than \<^verbatim>\<open>EINTR\<close>, then an accepted one. The loop is then at the start of the next
  chunk, with a retry count of zero.\<close>

lemma send_loop_chunk:
  assumes pos: "0 < remain"
    and ref: "\<forall>i<k. write_status (write_nth e (wn + i)) \<noteq> 0"
    and cnt: "r + length (filter (\<lambda>i. write_errno (write_nth e (wn + i)) \<noteq> EINTR) [0..<k]) \<le> max_retry"
    and acc: "write_status (write_nth e (wn + k)) = 0"
  shows "\<exists>g' tr'. send_loop e g data remain r wn tr =
           send_loop e g' (data + min remain ITE_MAX_SEND_BYTES) (remain - min remain ITE_MAX_SEND_BYTES)
             0 (Suc (wn + k)) tr'
       \<and> actions_of tr' = actions_of tr @ chunk_actions e wn k (data, min remain ITE_MAX_SEND_BYTES)
       \<and> all_write g' mod SIZE_MOD = (all_write g + Suc k) mod SIZE_MOD
       \<and> fail_write g' mod SIZE_MOD = (fail_write g + k) mod SIZE_MOD"
  using ref cnt acc
proof (induction k arbitrary: r wn g tr)
  case 0
  then have w0: "write_status (write_nth e wn) = 0" by simp
  define g4 where "g4 = g\<lparr>all_write := (all_write g + 1) mod SIZE_MOD,
         pkt_sent := (pkt_sent g + min remain ITE_MAX_SEND_BYTES) mod SIZE_MOD,
         due_time := (if bitrate g \<noteq> 0
                      then due_time g + int (((min remain ITE_MAX_SEND_BYTES * 8 * PKT_SIZE * NanoSecPerSec)
                                               mod SIZE_MOD) div bitrate g)
                      else due_time g)\<rparr>"
  define tr2 where "tr2 = (if r = 0 \<and> bitrate g \<noteq> 0 then tr @ [Wait (due_time g)] else tr)
        @ [Write data (min remain ITE_MAX_SEND_BYTES),
           Log_write 0 (write_errno (write_nth e wn)) r ((all_write g + 1) mod SIZE_MOD) (fail_write g)]"
  have "send_loop e g data remain r wn tr =
      send_loop e g4 (data + min remain ITE_MAX_SEND_BYTES) (remain - min remain ITE_MAX_SEND_BYTES)
        0 (Suc (wn + 0)) tr2"
    using send_loop_accept [OF pos w0, of g data r tr] unfolding g4_def tr2_def by simp
  moreover have "actions_of tr2 = actions_of tr @ chunk_actions e wn 0 (data, min remain ITE_MAX_SEND_BYTES)"
    by (simp add: tr2_def actions_of_def chunk_actions_0)
  moreover have "all_write g4 mod SIZE_MOD = (all_write g + Suc 0) mod SIZE_MOD"
    by (simp add: g4_def)
  moreover have "fail_write g4 mod SIZE_MOD = (fail_write g + 0) mod SIZE_MOD"
    by (simp add: g4_def)
  ultimately show ?case by blast
next
  case (Suc k)
  define burst where "burst = min remain ITE_MAX_SEND_BYTES"
  have w0: "write_status (write_nth e wn) \<noteq> 0"
    using Suc.prems(1) by (metis add.right_neutral zero_less_Suc)
  have ref': "\<forall>i<k. write_status (write_nth e (Suc wn + i)) \<noteq> 0"
    using Suc.prems(1) by (metis Suc_less_eq add_Suc_shift)
  have acc': "write_status (write_nth e (Suc wn + k)) = 0"
    using Suc.prems(3) by simp
  define g2 where "g2 = g\<lparr>all_write := (all_write g + 1) mod SIZE_MOD,
                         fail_write := (fail_write g + 1) mod SIZE_MOD\<rparr>"
  define trw where "trw = (if r = 0 \<and> bitrate g \<noteq> 0 then tr @ [Wait (due_time g)] else tr)
      @ [Write data burst,
         Log_write (write_status (write_nth e wn)) (write_errno (write_nth e wn)) r
           (all_write g2) (fail_write g2)]"
  have aw2: "(all_write g2 + Suc k) mod SIZE_MOD = (all_write g + Suc (Suc k)) mod SIZE_MOD"
    using mod_add_left_eq [of "all_write g + 1" SIZE_MOD "Suc k"] by (simp add: g2_def)
  have fw2: "(fail_write g2 + k) mod SIZE_MOD = (fail_write g + Suc k) mod SIZE_MOD"
    using mod_add_left_eq [of "fail_write g + 1" SIZE_MOD k] by (simp add: g2_def)
  show ?case
  proof (cases "write_errno (write_nth e wn) = EINTR")
    case True
    have step: "send_loop e g data remain r wn tr =
        send_loop e g2 data remain r (Suc wn) (trw @ [Debug_interrupted])"
      using pos w0 True
      by (subst send_loop.simps) (simp add: Let_def g2_def trw_def burst_def)
    have cnt': "r + length (filter (\<lambda>i. write_errno (write_nth e (Suc wn + i)) \<noteq> EINTR) [0..<k])
        \<le> max_retry"
      using Suc.prems(2) True unfolding count_upt_Suc by simp
    from Suc.IH [OF ref' cnt' acc', of g2 "trw @ [Debug_interrupted]"]
    obtain g' tr' where
      run: "send_loop e g2 data remain r (Suc wn) (trw @ [Debug_interrupted]) =
           send_loop e g' (data + min remain ITE_MAX_SEND_BYTES) (remain - min remain ITE_MAX_SEND_BYTES)
             0 (Suc (Suc wn + k)) tr'"
      and ac: "actions_of tr' = actions_of (trw @ [Debug_interrupted])
          @ chunk_actions e (Suc wn) k (data, min remain ITE_MAX_SEND_BYTES)"
      and aw: "all_write g' mod SIZE_MOD = (all_write g2 + Suc k) mod SIZE_MOD"
      and fw: "fail_write g' mod SIZE_MOD = (fail_write g2 + k) mod SIZE_MOD"
      by blast
    have "actions_of tr' = actions_of tr @ chunk_actions e wn (Suc k) (data, min remain ITE_MAX_SEND_BYTES)"
      unfolding ac chunk_actions_Suc using True
      by (simp add: actions_of_def trw_def burst_def)
    moreover have "send_loop e g data remain r wn tr =
           send_loop e g' (data + min remain ITE_MAX_SEND_BYTES) (remain - min remain ITE_MAX_SEND_BYTES)
             0 (Suc (wn + Suc k)) tr'"
      using step run by simp
    ultimately show ?thesis using aw fw aw2 fw2 by (intro exI [of _ g'] exI [of _ tr']) simp
  next
    case False
    have rlt: "r < max_retry"
      using Suc.prems(2) False unfolding count_upt_Suc by simp
    have step: "send_loop e g data remain r wn tr =
        send_loop e g2 data remain (Suc r) (Suc wn) (trw @ [Usleep error_delay])"
      using pos w0 False rlt
      by (subst send_loop.simps) (simp add: Let_def g2_def trw_def burst_def)
    have cnt': "Suc r + length (filter (\<lambda>i. write_errno (write_nth e (Suc wn + i)) \<noteq> EINTR) [0..<k])
        \<le> max_retry"
      using Suc.prems(2) False unfolding count_upt_Suc by simp
    from Suc.IH [OF ref' cnt' acc', of g2 "trw @ [Usleep error_delay]"]
    obtain g' tr' where
      run: "send_loop e g2 data remain (Suc r) (Suc wn) (trw @ [Usleep error_delay]) =
           send_loop e g' (data + min remain ITE_MAX_SEND_BYTES) (remain - min remain ITE_MAX_SEND_BYTES)
             0 (Suc (Suc wn + k)) tr'"
      and ac: "actions_of tr' = actions_of (trw @ [Usleep error_delay])
          @ chunk_actions e (Suc wn) k (data, min remain ITE_MAX_SEND_BYTES)"
      and aw: "all_write g' mod SIZE_MOD = (all_write g2 + Suc k) mod SIZE_MOD"
      and fw: "fail_write g' mod SIZE_MOD = (fail_write g2 + k) mod SIZE_MOD"
      by blast
    have "actions_of tr' = actions_of tr @ chunk_actions e wn (Suc k) (data, min remain ITE_MAX_SEND_BYTES)"
      unfolding ac chunk_actions_Suc using False
      by (simp add: actions_of_def trw_def burst_def)
    moreover have "send_loop e g data remain r wn tr =
           send_loop e g' (data + min remain ITE_MAX_SEND_BYTES) (remain - min remain ITE_MAX_SEND_BYTES)
             0 (Suc (wn + Suc k)) tr'"
      using step run by simp
    ultimately show ?thesis using aw fw aw2 fw2 by (intro exI [of _ g'] exI [of _ tr']) simp
  qed
qed

lemma refused_then_acceptedD:
  assumes "refused_then_accepted e wn k"
  shows "\<forall>i<k. write_status (write_nth e (wn + i)) \<noteq> 0"
    and "0 + length (filter (\<lambda>i. write_errno (write_nth e (wn + i)) \<noteq> EINTR) [0..<k]) \<le> max_retry"
    and "write_status (write_nth e (wn + k)) = 0"
  using assms by (simp_all add: refused_then_accepted_def list_all_iff)

text \<open>The chunks before chunk \<open>length ks\<close>, none of them the last, chunk \<open>j\<close> accepted
  after \<open>ks ! j\<close> refusals: the loop is then at the start of chunk \<open>length ks\<close>, with a
  retry count of zero.\<close>

lemma send_loop_history:
  assumes "length ks < nchunks remain"
    and "chunks_accepted e wn ks"
  shows "\<exists>g' tr'. send_loop e g data remain 0 wn tr =
           send_loop e g' (data + length ks * ITE_MAX_SEND_BYTES)
             (remain - length ks * ITE_MAX_SEND_BYTES) 0 (wn + (sum_list ks + length ks)) tr'
       \<and> actions_of tr' = actions_of tr @ history_actions e wn ks (chunks_from data remain)
       \<and> all_write g' mod SIZE_MOD = (all_write g + (sum_list ks + length ks)) mod SIZE_MOD
       \<and> fail_write g' mod SIZE_MOD = (fail_write g + sum_list ks) mod SIZE_MOD"
  using assms
proof (induction ks arbitrary: g data remain wn tr)
  case Nil
  show ?case
    by (intro exI [of _ g] exI [of _ tr]) simp
next
  case (Cons k ks)
  have big: "ITE_MAX_SEND_BYTES < remain"
  proof (rule ccontr)
    assume "\<not> ITE_MAX_SEND_BYTES < remain"
    then have "nchunks remain \<le> 1" by (intro nchunks_le_1) simp
    with Cons.prems(1) show False by simp
  qed
  then have pos: "0 < remain" and burst: "min remain ITE_MAX_SEND_BYTES = ITE_MAX_SEND_BYTES"
    by simp_all
  have nc: "nchunks remain = Suc (nchunks (remain - ITE_MAX_SEND_BYTES))"
    using nchunks_step [OF pos] burst by simp
  have ch: "chunks_from data remain = (data, ITE_MAX_SEND_BYTES)
      # chunks_from (data + ITE_MAX_SEND_BYTES) (remain - ITE_MAX_SEND_BYTES)"
    using chunks_from_step [OF pos, of data] burst by simp
  have len: "length ks < nchunks (remain - ITE_MAX_SEND_BYTES)"
    using Cons.prems(1) nc by simp
  have ra: "refused_then_accepted e wn k" and rest: "chunks_accepted e (Suc (wn + k)) ks"
    using Cons.prems(2) by simp_all
  from send_loop_chunk [OF pos refused_then_acceptedD [OF ra], of g data tr]
  obtain g1 tr1 where
    one: "send_loop e g data remain 0 wn tr =
           send_loop e g1 (data + ITE_MAX_SEND_BYTES) (remain - ITE_MAX_SEND_BYTES) 0 (Suc (wn + k)) tr1"
    and ac1: "actions_of tr1 = actions_of tr @ chunk_actions e wn k (data, ITE_MAX_SEND_BYTES)"
    and aw1: "all_write g1 mod SIZE_MOD = (all_write g + Suc k) mod SIZE_MOD"
    and fw1: "fail_write g1 mod SIZE_MOD = (fail_write g + k) mod SIZE_MOD"
    unfolding burst by blast
  from Cons.IH [OF len rest, of g1 "data + ITE_MAX_SEND_BYTES" tr1]
  obtain g' tr' where
    run: "send_loop e g1 (data + ITE_MAX_SEND_BYTES) (remain - ITE_MAX_SEND_BYTES) 0 (Suc (wn + k)) tr1 =
           send_loop e g' (data + ITE_MAX_SEND_BYTES + length ks * ITE_MAX_SEND_BYTES)
             (remain - ITE_MAX_SEND_BYTES - length ks * ITE_MAX_SEND_BYTES) 0
             (Suc (wn + k) + (sum_list ks + length ks)) tr'"
    and ac: "actions_of tr' = actions_of tr1
        @ history_actions e (Suc (wn + k)) ks
            (chunks_from (data + ITE_MAX_SEND_BYTES) (remain - ITE_MAX_SEND_BYTES))"
    and aw: "all_write g' mod SIZE_MOD = (all_write g1 + (sum_list ks + length ks)) mod SIZE_MOD"
    and fw: "fail_write g' mod SIZE_MOD = (fail_write g1 + sum_list ks) mod SIZE_MOD"
    by blast
  have "send_loop e g data remain 0 wn tr =
      send_loop e g' (data + length (k # ks) * ITE_MAX_SEND_BYTES)
        (remain - length (k # ks) * ITE_MAX_SEND_BYTES) 0
        (wn + (sum_list (k # ks) + length (k # ks))) tr'"
    using one run by (simp add: add.assoc add.commute add.left_commute)
  moreover have "actions_of tr' = actions_of tr @ history_actions e wn (k # ks) (chunks_from data remain)"
    unfolding ac ac1 ch by simp
  moreover have "all_write g' mod SIZE_MOD =
      (all_write g + (sum_list (k # ks) + length (k # ks))) mod SIZE_MOD"
  proof -
    have "all_write g' mod SIZE_MOD = (all_write g1 mod SIZE_MOD + (sum_list ks + length ks)) mod SIZE_MOD"
      unfolding aw by (simp only: mod_add_left_eq)
    also have "\<dots> = (all_write g + Suc k + (sum_list ks + length ks)) mod SIZE_MOD"
      unfolding aw1 by (simp only: mod_add_left_eq)
    finally show ?thesis by (simp add: add.assoc add.commute add.left_commute)
  qed
  moreover have "fail_write g' mod SIZE_MOD = (fail_write g + sum_list (k # ks)) mod SIZE_MOD"
  proof -
    have "fail_write g' mod SIZE_MOD = (fail_write g1 mod SIZE_MOD + sum_list ks) mod SIZE_MOD"
      unfolding fw by (simp only: mod_add_left_eq)
    also have "\<dots> = (fail_write g + k + sum_list ks) mod SIZE_MOD"
      unfolding fw1 by (simp only: mod_add_left_eq)
    finally show ?thesis by (simp add: add.assoc)
  qed
  ultimately show ?case by blast
qed

lemma writes_of_chunk_actions: "writes_of (chunk_actions e wn k c) = replicate (Suc k) c"
  by (induction k arbitrary: wn) (simp_all add: chunk_actions_0 chunk_actions_Suc writes_of_append)

lemma writes_of_history_actions:
  "writes_of (history_actions e wn ks cs) =
     concat (map (\<lambda>p. replicate (Suc (fst p)) (snd p)) (zip ks cs))"
  by (induction e wn ks cs rule: history_actions.induct)
     (simp_all add: writes_of_append writes_of_chunk_actions)

subsection \<open>The claims\<close>

text \<open>
  C1. The claim: with pacing enabled, an accepted chunk advances the due time by
  chunk_bytes * 8 * 1e9 / bit_rate nanoseconds. The code multiplies the byte count of the
  chunk by \<^verbatim>\<open>8 * PKT_SIZE\<close>, as if it were a packet count: one packet of 188 bytes
  accepted at 8,000,000 b/s, with the clock at 1000 on entry, leaves the due time at
  1000 + 35,344,000 where the transmission time of the packet is 188,000 nanoseconds.
\<close>

theorem send_one_packet_paced:
  "Guts_send (mock_env all_ok accepting) 1000 (guts0\<lparr>bitrate := 8000000\<rparr>) 1
   = Some (True,
           guts0\<lparr>bitrate := 8000000, due_time := 1000 + 35344000, pkt_sent := 188, all_write := 1\<rparr>,
           [Log_send 1 8000000, Wait 1000, Write 0 188, Log_write 0 0 0 1 0])
   \<and> (188 * 8 * NanoSecPerSec) div 8000000 = 188000"
  apply (simp add: Guts_send_def send_entry_def guts0_def mock_env_def accepting_def Let_def
      PKT_SIZE_def SIZE_MOD_def NanoSecPerSec_def)
  apply (subst send_loop.simps)
  apply (simp add: Let_def ITE_MAX_SEND_BYTES_def ITE_MAX_SEND_PACKETS_def PKT_SIZE_def
      SIZE_MOD_def NanoSecPerSec_def accepting_def)
  apply (subst send_loop.simps)
  apply simp
  done

text \<open>
  C2. The claim: an accepted chunk advances the sent-packet counter by the chunk size in
  packets. The code adds the chunk size in bytes: one packet accepted from a zero counter
  leaves \<open>pkt_sent\<close> at 188. The cursor moves by the same 188 bytes, which is one packet.
\<close>

theorem send_one_packet_counter:
  "Guts_send (mock_env all_ok accepting) 0 guts0 1
   = Some (True, guts0\<lparr>pkt_sent := 188, all_write := 1\<rparr>,
           [Log_send 1 0, Write 0 188, Log_write 0 0 0 1 0])"
  apply (simp add: Guts_send_def send_entry_def guts0_def mock_env_def accepting_def Let_def
      PKT_SIZE_def SIZE_MOD_def)
  apply (subst send_loop.simps)
  apply (simp add: Let_def ITE_MAX_SEND_BYTES_def ITE_MAX_SEND_PACKETS_def PKT_SIZE_def
      SIZE_MOD_def accepting_def)
  apply (subst send_loop.simps)
  apply simp
  done

text \<open>
  C3, as the claim states it, fails: when the stop-transfer command fails,
  \<^verbatim>\<open>stopTransmission\<close> reports the error and returns before it clears the flag, and the
  session is still Transmitting.
\<close>

theorem stopTransmission_failure_counterexample:
  "stopTransmission
     (mock_env (\<lambda>r. \<lparr>ioctl_ret = - 1, req_error = 0, ioctl_errno = 5\<rparr>) accepting)
     \<lparr>is_open = True, the_guts = guts0\<rparr>
   = (False, \<lparr>is_open = True, the_guts = guts0\<rparr>,
      [Ioctl IOCTL_ITE_MOD_STOPTRANSFER, Error ''error stopping transmission: host error''])
   \<and> state_of \<lparr>is_open = True, the_guts = guts0\<rparr> = Transmitting"
  by (simp add: stopTransmission_def Guts_stopTransmission_def Let_def state_of_def mock_env_def
      ioctl_failed_def guts0_def HiDesErrorMessage_def)

text \<open>
  C3, amended. On an open session \<^verbatim>\<open>stopTransmission\<close> issues the stop-transfer command.
  When it fails, the error is reported and the call returns failure; the disable-mode
  command is not issued. Otherwise the disable-mode command is issued; when it fails, the
  error is reported and the call returns failure. In both cases the object, hence the
  session state, is left as it was. When both commands succeed the call returns success,
  the transmitting flag is cleared and the state is Opened.
\<close>

theorem stopTransmission_outcome:
  assumes "is_open d"
  shows "stopTransmission e d =
      (if ioctl_failed (ioctl e IOCTL_ITE_MOD_STOPTRANSFER) then
         (False, d,
          [Ioctl IOCTL_ITE_MOD_STOPTRANSFER,
           Error (''error stopping transmission: '' @
                  HiDesErrorMessage e (req_error (ioctl e IOCTL_ITE_MOD_STOPTRANSFER))
                    (ioctl_errno (ioctl e IOCTL_ITE_MOD_STOPTRANSFER)))])
       else if ioctl_failed (ioctl e (IOCTL_ITE_MOD_ENABLETXMODE 0)) then
         (False, d,
          [Ioctl IOCTL_ITE_MOD_STOPTRANSFER, Ioctl (IOCTL_ITE_MOD_ENABLETXMODE 0),
           Error (''error disabling transmission: '' @
                  HiDesErrorMessage e (req_error (ioctl e (IOCTL_ITE_MOD_ENABLETXMODE 0)))
                    (ioctl_errno (ioctl e (IOCTL_ITE_MOD_ENABLETXMODE 0))))])
       else
         (True, d\<lparr>the_guts := (the_guts d)\<lparr>transmitting := False\<rparr>\<rparr>,
          [Ioctl IOCTL_ITE_MOD_STOPTRANSFER, Ioctl (IOCTL_ITE_MOD_ENABLETXMODE 0)]))
    \<and> state_of (fst (snd (stopTransmission e d))) =
      (if ioctl_failed (ioctl e IOCTL_ITE_MOD_STOPTRANSFER)
          \<or> ioctl_failed (ioctl e (IOCTL_ITE_MOD_ENABLETXMODE 0))
       then state_of d else Opened)"
  using assms
  by (simp add: stopTransmission_def Guts_stopTransmission_def Let_def state_of_def)

theorem stopTransmission_outcome_witness:
  "is_open \<lparr>is_open = True, the_guts = guts0\<rparr>
   \<and> stopTransmission (mock_env all_ok accepting) \<lparr>is_open = True, the_guts = guts0\<rparr>
     = (True, \<lparr>is_open = True, the_guts = guts0\<lparr>transmitting := False\<rparr>\<rparr>,
        [Ioctl IOCTL_ITE_MOD_STOPTRANSFER, Ioctl (IOCTL_ITE_MOD_ENABLETXMODE 0)])
   \<and> state_of \<lparr>is_open = True, the_guts = guts0\<lparr>transmitting := False\<rparr>\<rparr> = Opened
   \<and> stopTransmission
       (mock_env (\<lambda>r. if r = IOCTL_ITE_MOD_ENABLETXMODE 0
                      then \<lparr>ioctl_ret = 0, req_error = 59, ioctl_errno = 0\<rparr> else ioctl_ok)
                 accepting)
       \<lparr>is_open = True, the_guts = guts0\<rparr>
     = (False, \<lparr>is_open = True, the_guts = guts0\<rparr>,
        [Ioctl IOCTL_ITE_MOD_STOPTRANSFER, Ioctl (IOCTL_ITE_MOD_ENABLETXMODE 0),
         Error ''error disabling transmission: HiDes error''])
   \<and> stopTransmission
       (mock_env (\<lambda>r. \<lparr>ioctl_ret = - 1, req_error = 0, ioctl_errno = 5\<rparr>) accepting)
       \<lparr>is_open = True, the_guts = guts0\<rparr>
     = (False, \<lparr>is_open = True, the_guts = guts0\<rparr>,
        [Ioctl IOCTL_ITE_MOD_STOPTRANSFER, Error ''error stopping transmission: host error''])"
proof -
  have o: "is_open \<lparr>is_open = True, the_guts = guts0\<rparr>" by simp
  show ?thesis
    using stopTransmission_outcome [OF o, of "mock_env all_ok accepting"]
      stopTransmission_outcome [OF o, of
        "mock_env (\<lambda>r. if r = IOCTL_ITE_MOD_ENABLETXMODE 0
                        then \<lparr>ioctl_ret = 0, req_error = 59, ioctl_errno = 0\<rparr> else ioctl_ok)
                  accepting"]
      stopTransmission_outcome [OF o, of
        "mock_env (\<lambda>r. \<lparr>ioctl_ret = - 1, req_error = 0, ioctl_errno = 5\<rparr>) accepting"]
    by (simp add: mock_env_def ioctl_ok_def all_ok_def ioctl_failed_def guts0_def state_of_def
        HiDesErrorMessage_def)
qed

text \<open>
  C4. A request on a transmitting device. The chunks before chunk \<open>m = length ks\<close> get
  through, chunk \<open>j\<close> after \<open>ks ! j\<close> refused writes (whatever their host error, as long
  as the call does not give up on them), and chunk \<open>m\<close> is refused by every write: each
  of the next 101 writes returns a non-zero status with a host error other than
  \<^verbatim>\<open>EINTR\<close>. The call returns failure after exactly these 101 writes of chunk \<open>m\<close>,
  that is after 100 retries, however often the chunks before were retried: a delay of 100
  microseconds follows each of the first 100 of them, and the 101st is followed by the
  report of the error, whose text is composed from the status and the host error of that
  last write. The counter of writes has advanced by the writes before chunk \<open>m\<close> and 101,
  the counter of failures by the refusals before chunk \<open>m\<close> and 101.
\<close>

theorem send_retry_bound:
  assumes tx: "transmitting g"
    and fit: "packet_count * PKT_SIZE < SIZE_MOD"
    and m: "length ks < length (spec_chunks packet_count)"
    and hist: "chunks_accepted e 0 ks"
    and rej: "\<forall>i\<le>max_retry.
                write_status (write_nth e (sum_list ks + length ks + i)) \<noteq> 0
              \<and> write_errno (write_nth e (sum_list ks + length ks + i)) \<noteq> EINTR"
  shows "\<exists>g' tr. Guts_send e now g packet_count = Some (False, g', tr)
      \<and> actions_of tr =
          history_actions e 0 ks (spec_chunks packet_count)
          @ concat (replicate 100 [Write (fst (spec_chunks packet_count ! length ks))
                                         (snd (spec_chunks packet_count ! length ks)), Usleep 100])
          @ [Write (fst (spec_chunks packet_count ! length ks))
                   (snd (spec_chunks packet_count ! length ks)),
             Error (''error sending data: '' @
                    HiDesErrorMessage e
                      (write_status (write_nth e (sum_list ks + length ks + 100)))
                      (write_errno (write_nth e (sum_list ks + length ks + 100))))]
      \<and> all_write g' = (all_write g + (sum_list ks + length ks) + 101) mod SIZE_MOD
      \<and> fail_write g' = (fail_write g + sum_list ks + 101) mod SIZE_MOD"
proof -
  define R where "R = packet_count * PKT_SIZE"
  define m where "m = length ks"
  define w where "w = sum_list ks + length ks"
  define g1 where "g1 = fst (send_entry now g)"
  define tr1 where "tr1 = snd (send_entry now g) @ [Log_send packet_count (bitrate g1)]"
  have s: "Guts_send e now g packet_count = send_loop e g1 0 R 0 0 tr1"
    using tx fit by (simp add: Guts_send_def Let_def g1_def tr1_def R_def)
  have a1: "actions_of tr1 = []"
    by (simp add: tr1_def actions_of_append send_entry_frame) (simp add: actions_of_def)
  have mn: "m < nchunks R"
    using assms(3) by (simp add: length_spec_chunks R_def m_def)
  have sc: "spec_chunks packet_count = chunks_from 0 R"
    by (simp add: chunks_from_packets R_def)
  from send_loop_history [OF mn [unfolded m_def] hist, of g1 0 tr1]
  obtain g2 tr2 where
    run: "send_loop e g1 0 R 0 0 tr1 =
           send_loop e g2 (m * ITE_MAX_SEND_BYTES) (R - m * ITE_MAX_SEND_BYTES) 0 w tr2"
    and ac: "actions_of tr2 = history_actions e 0 ks (chunks_from 0 R)"
    and aw: "all_write g2 mod SIZE_MOD = (all_write g1 + w) mod SIZE_MOD"
    and fw: "fail_write g2 mod SIZE_MOD = (fail_write g1 + sum_list ks) mod SIZE_MOD"
    using a1 unfolding m_def w_def by auto
  have pos: "0 < R - m * ITE_MAX_SEND_BYTES"
    using nchunks_offset [OF mn] by simp
  have z: "0 + max_retry = max_retry" by simp
  have rej': "\<forall>i\<le>max_retry. write_status (write_nth e (w + i)) \<noteq> 0
                            \<and> write_errno (write_nth e (w + i)) \<noteq> EINTR"
    using rej by (simp add: w_def)
  from send_loop_retry [OF pos z rej', of g2 "m * ITE_MAX_SEND_BYTES" tr2]
  obtain tr' where
    res: "send_loop e g2 (m * ITE_MAX_SEND_BYTES) (R - m * ITE_MAX_SEND_BYTES) 0 w tr2 =
        Some (False,
              g2\<lparr>all_write := (all_write g2 + Suc max_retry) mod SIZE_MOD,
                 fail_write := (fail_write g2 + Suc max_retry) mod SIZE_MOD\<rparr>,
              tr')"
    and ac': "actions_of tr' = actions_of tr2
           @ concat (replicate max_retry
               [Write (m * ITE_MAX_SEND_BYTES) (min (R - m * ITE_MAX_SEND_BYTES) ITE_MAX_SEND_BYTES),
                Usleep error_delay])
           @ [Write (m * ITE_MAX_SEND_BYTES) (min (R - m * ITE_MAX_SEND_BYTES) ITE_MAX_SEND_BYTES),
              Error (''error sending data: '' @
                     HiDesErrorMessage e (write_status (write_nth e (w + max_retry)))
                       (write_errno (write_nth e (w + max_retry))))]"
    by blast
  have nth: "chunks_from 0 R ! m =
      (m * ITE_MAX_SEND_BYTES, min (R - m * ITE_MAX_SEND_BYTES) ITE_MAX_SEND_BYTES)"
    using chunks_from_nth [OF mn, of 0] by simp
  have fin: "actions_of tr' =
          history_actions e 0 ks (spec_chunks packet_count)
          @ concat (replicate 100 [Write (fst (spec_chunks packet_count ! length ks))
                                         (snd (spec_chunks packet_count ! length ks)), Usleep 100])
          @ [Write (fst (spec_chunks packet_count ! length ks))
                   (snd (spec_chunks packet_count ! length ks)),
             Error (''error sending data: '' @
                    HiDesErrorMessage e
                      (write_status (write_nth e (sum_list ks + length ks + 100)))
                      (write_errno (write_nth e (sum_list ks + length ks + 100))))]"
    unfolding ac' ac sc
    by (simp add: nth [unfolded m_def] m_def w_def max_retry_def error_delay_def)
  have "(all_write g2 + Suc max_retry) mod SIZE_MOD = (all_write g2 mod SIZE_MOD + Suc max_retry) mod SIZE_MOD"
    by (simp only: mod_add_left_eq)
  also have "\<dots> = (all_write g1 + w + Suc max_retry) mod SIZE_MOD"
    unfolding aw by (simp only: mod_add_left_eq)
  finally have aw': "(all_write g2 + Suc max_retry) mod SIZE_MOD
      = (all_write g + (sum_list ks + length ks) + 101) mod SIZE_MOD"
    by (simp add: g1_def send_entry_frame max_retry_def w_def)
  have "(fail_write g2 + Suc max_retry) mod SIZE_MOD = (fail_write g2 mod SIZE_MOD + Suc max_retry) mod SIZE_MOD"
    by (simp only: mod_add_left_eq)
  also have "\<dots> = (fail_write g1 + sum_list ks + Suc max_retry) mod SIZE_MOD"
    unfolding fw by (simp only: mod_add_left_eq)
  finally have fw': "(fail_write g2 + Suc max_retry) mod SIZE_MOD
      = (fail_write g + sum_list ks + 101) mod SIZE_MOD"
    by (simp add: g1_def send_entry_frame max_retry_def)
  have "Guts_send e now g packet_count =
      Some (False,
            g2\<lparr>all_write := (all_write g2 + Suc max_retry) mod SIZE_MOD,
               fail_write := (fail_write g2 + Suc max_retry) mod SIZE_MOD\<rparr>,
            tr')"
    using s run res by simp
  moreover have "all_write (g2\<lparr>all_write := (all_write g2 + Suc max_retry) mod SIZE_MOD,
               fail_write := (fail_write g2 + Suc max_retry) mod SIZE_MOD\<rparr>)
      = (all_write g + (sum_list ks + length ks) + 101) mod SIZE_MOD"
    using aw' by simp
  moreover have "fail_write (g2\<lparr>all_write := (all_write g2 + Suc max_retry) mod SIZE_MOD,
               fail_write := (fail_write g2 + Suc max_retry) mod SIZE_MOD\<rparr>)
      = (fail_write g + sum_list ks + 101) mod SIZE_MOD"
    using fw' by simp
  ultimately show ?thesis using fin by blast
qed

theorem send_retry_bound_witness:
  "transmitting guts0 \<and> 173 * PKT_SIZE < SIZE_MOD \<and> length [1::nat] < length (spec_chunks 173)
   \<and> chunks_accepted (mock_env all_ok accepting_second) 0 [1]
   \<and> chunks_accepted (mock_env all_ok accepting_first) 0 [0]
   \<and> (\<exists>g' tr. Guts_send (mock_env all_ok accepting_second) 0 guts0 173 = Some (False, g', tr)
        \<and> actions_of tr =
             [Write 0 32336, Usleep 100, Write 0 32336]
             @ concat (replicate 100 [Write 32336 188, Usleep 100])
             @ [Write 32336 188, Error ''error sending data: HiDes error, host error'']
        \<and> all_write g' = 103 \<and> fail_write g' = 102)
   \<and> (\<exists>g' tr. Guts_send (mock_env all_ok accepting_first) 0 guts0 173 = Some (False, g', tr)
        \<and> actions_of tr =
             [Write 0 32336]
             @ concat (replicate 100 [Write 32336 188, Usleep 100])
             @ [Write 32336 188, Error ''error sending data: HiDes error, host error'']
        \<and> all_write g' = 102 \<and> fail_write g' = 101)"
proof -
  have h1: "transmitting guts0" by (simp add: guts0_def)
  have h2: "173 * PKT_SIZE < SIZE_MOD" by (simp add: PKT_SIZE_def SIZE_MOD_def)
  have u: "[0..<2] = [0, 1::nat]" by (simp add: upt_rec)
  have sc: "spec_chunks 173 = [(0, 32336), (32336, 188)]"
    by (simp add: spec_chunks_def ITE_MAX_SEND_PACKETS_def PKT_SIZE_def u)
  have h3: "length [1::nat] < length (spec_chunks 173)" by (simp add: sc)
  have h3': "length [0::nat] < length (spec_chunks 173)" by (simp add: sc)
  have h4: "chunks_accepted (mock_env all_ok accepting_second) 0 [1]"
    by (simp add: refused_then_accepted_def mock_env_def accepting_second_def EINTR_def max_retry_def)
  have h4': "chunks_accepted (mock_env all_ok accepting_first) 0 [0]"
    by (simp add: refused_then_accepted_def mock_env_def accepting_first_def max_retry_def)
  have h5: "\<forall>i\<le>max_retry.
        write_status (write_nth (mock_env all_ok accepting_second) (sum_list [1] + length [1::nat] + i)) \<noteq> 0
      \<and> write_errno (write_nth (mock_env all_ok accepting_second) (sum_list [1] + length [1::nat] + i)) \<noteq> EINTR"
    by (simp add: mock_env_def accepting_second_def EINTR_def)
  have h5': "\<forall>i\<le>max_retry.
        write_status (write_nth (mock_env all_ok accepting_first) (sum_list [0] + length [0::nat] + i)) \<noteq> 0
      \<and> write_errno (write_nth (mock_env all_ok accepting_first) (sum_list [0] + length [0::nat] + i)) \<noteq> EINTR"
    by (simp add: mock_env_def accepting_first_def EINTR_def)
  from send_retry_bound [OF h1 h2 h3 h4 h5, of 0]
  have a: "\<exists>g' tr. Guts_send (mock_env all_ok accepting_second) 0 guts0 173 = Some (False, g', tr)
        \<and> actions_of tr =
             [Write 0 32336, Usleep 100, Write 0 32336]
             @ concat (replicate 100 [Write 32336 188, Usleep 100])
             @ [Write 32336 188, Error ''error sending data: HiDes error, host error'']
        \<and> all_write g' = 103 \<and> fail_write g' = 102"
    by (simp add: sc guts0_def SIZE_MOD_def HiDesErrorMessage_def mock_env_def accepting_second_def
        chunk_actions_def EINTR_def error_delay_def)
  from send_retry_bound [OF h1 h2 h3' h4' h5', of 0]
  have b: "\<exists>g' tr. Guts_send (mock_env all_ok accepting_first) 0 guts0 173 = Some (False, g', tr)
        \<and> actions_of tr =
             [Write 0 32336]
             @ concat (replicate 100 [Write 32336 188, Usleep 100])
             @ [Write 32336 188, Error ''error sending data: HiDes error, host error'']
        \<and> all_write g' = 102 \<and> fail_write g' = 101"
    by (simp add: sc guts0_def SIZE_MOD_def HiDesErrorMessage_def mock_env_def accepting_first_def
        chunk_actions_def EINTR_def error_delay_def)
  show ?thesis by (intro conjI h1 h2 h3 h4 h4' a b)
qed

text \<open>
  C5. A request of \<open>packet_count\<close> packets, whose byte size fits \<^verbatim>\<open>size_t\<close>, on a
  transmitting device. Whatever the driver replies, when the call returns, its writes, a
  chunk that is written again after a refusal counted once, are the first chunks of the
  request in their order, and all the chunks when the call succeeds. When the driver
  accepts every write, the call does return, with success, and its writes are exactly the
  chunks of the request: each of 172 packets but the last, which has what is left.
\<close>

theorem send_chunk_splitting:
  assumes tx: "transmitting g"
    and fit: "packet_count * PKT_SIZE < SIZE_MOD"
  shows "(\<forall>ok g' tr. Guts_send e now g packet_count = Some (ok, g', tr) \<longrightarrow>
            (\<exists>k. remdups_adj (writes_of tr) = take k (spec_chunks packet_count))
          \<and> (ok \<longrightarrow> remdups_adj (writes_of tr) = spec_chunks packet_count))
       \<and> ((\<forall>i < length (spec_chunks packet_count). write_status (write_nth e i) = 0) \<longrightarrow>
            (\<exists>g' tr. Guts_send e now g packet_count = Some (True, g', tr)
                   \<and> writes_of tr = spec_chunks packet_count))"
proof -
  define g1 where "g1 = fst (send_entry now g)"
  define tr1 where "tr1 = snd (send_entry now g) @ [Log_send packet_count (bitrate g1)]"
  have s: "Guts_send e now g packet_count = send_loop e g1 0 (packet_count * PKT_SIZE) 0 0 tr1"
    using tx fit by (simp add: Guts_send_def Let_def g1_def tr1_def)
  have w1: "writes_of tr1 = []"
    by (simp add: tr1_def writes_of_append send_entry_frame)
  have any: "(\<exists>k. remdups_adj (writes_of tr) = take k (spec_chunks packet_count))
          \<and> (ok \<longrightarrow> remdups_adj (writes_of tr) = spec_chunks packet_count)"
    if "Guts_send e now g packet_count = Some (ok, g', tr)" for ok g' tr
  proof -
    from that s have "send_loop e g1 0 (packet_count * PKT_SIZE) 0 0 tr1 = Some (ok, g', tr)"
      by simp
    from send_loop_writes [OF this] obtain ws k where
      a: "writes_of tr = writes_of tr1 @ ws"
      and b: "remdups_adj ws = take k (chunks_from 0 (packet_count * PKT_SIZE))"
      and d: "if ok then k = nchunks (packet_count * PKT_SIZE) else True"
      by auto
    have r: "remdups_adj (writes_of tr) = take k (spec_chunks packet_count)"
      using a b w1 by (simp add: chunks_from_packets)
    moreover have "remdups_adj (writes_of tr) = spec_chunks packet_count" if ok
      using r d that by (simp add: length_spec_chunks [symmetric])
    ultimately show ?thesis by blast
  qed
  have acc: "\<exists>g' tr. Guts_send e now g packet_count = Some (True, g', tr)
                   \<and> writes_of tr = spec_chunks packet_count"
    if "\<forall>i < length (spec_chunks packet_count). write_status (write_nth e i) = 0"
  proof -
    have "\<forall>i < nchunks (packet_count * PKT_SIZE). write_status (write_nth e (0 + i)) = 0"
      using that by (simp add: length_spec_chunks)
    from send_loop_accepted [OF this, of g1 0 0 tr1] show ?thesis
      using s w1 by (simp add: chunks_from_packets)
  qed
  from any acc show ?thesis by blast
qed

theorem send_chunk_splitting_witness:
  "transmitting guts0 \<and> 1000 * PKT_SIZE < SIZE_MOD \<and> 173 * PKT_SIZE < SIZE_MOD
   \<and> (\<exists>g' tr. Guts_send (mock_env all_ok accepting) 0 guts0 1000 = Some (True, g', tr)
         \<and> map (\<lambda>w. snd w div PKT_SIZE) (writes_of tr) = [172, 172, 172, 172, 172, 140]
         \<and> map fst (writes_of tr) = [0, 32336, 64672, 97008, 129344, 161680])
   \<and> (\<exists>g' tr. Guts_send (mock_env all_ok refusing_first) 0 guts0 173 = Some (True, g', tr)
         \<and> writes_of tr = [(0, 32336), (0, 32336), (32336, 188)]
         \<and> remdups_adj (writes_of tr) = spec_chunks 173)"
proof -
  have h1: "transmitting guts0" by (simp add: guts0_def)
  have h2: "1000 * PKT_SIZE < SIZE_MOD" by (simp add: PKT_SIZE_def SIZE_MOD_def)
  have h3: "173 * PKT_SIZE < SIZE_MOD" by (simp add: PKT_SIZE_def SIZE_MOD_def)
  have u: "[0..<6] = [0, 1, 2, 3, 4, 5::nat]" by (simp add: upt_rec)
  have sc: "spec_chunks 1000 =
      [(0, 32336), (32336, 32336), (64672, 32336), (97008, 32336), (129344, 32336), (161680, 26320)]"
    by (simp add: spec_chunks_def ITE_MAX_SEND_PACKETS_def PKT_SIZE_def u)
  have "\<forall>i < length (spec_chunks 1000). write_status (write_nth (mock_env all_ok accepting) i) = 0"
    by (simp add: mock_env_def accepting_def)
  with send_chunk_splitting [OF h1 h2, of "mock_env all_ok accepting" 0]
  obtain g' tr where
    r: "Guts_send (mock_env all_ok accepting) 0 guts0 1000 = Some (True, g', tr)"
    and w: "writes_of tr = spec_chunks 1000"
    by blast
  have a: "map (\<lambda>w. snd w div PKT_SIZE) (writes_of tr) = [172, 172, 172, 172, 172, 140]"
    unfolding w sc by (simp add: PKT_SIZE_def)
  have b: "map fst (writes_of tr) = [0, 32336, 64672, 97008, 129344, 161680]"
    unfolding w sc by simp
  have ev: "Guts_send (mock_env all_ok refusing_first) 0 guts0 173
      = Some (True, guts0\<lparr>pkt_sent := 32524, all_write := 3, fail_write := 1\<rparr>,
              [Log_send 173 0,
               Write 0 32336, Log_write 59 0 0 1 1, Usleep 100,
               Write 0 32336, Log_write 0 0 1 2 1,
               Write 32336 188, Log_write 0 0 0 3 1])"
    apply (simp add: Guts_send_def send_entry_def guts0_def mock_env_def Let_def PKT_SIZE_def
        SIZE_MOD_def)
    apply (subst send_loop.simps)
    apply (simp add: Let_def ITE_MAX_SEND_BYTES_def ITE_MAX_SEND_PACKETS_def PKT_SIZE_def
        SIZE_MOD_def refusing_first_def EINTR_def max_retry_def error_delay_def)
    apply (subst send_loop.simps)
    apply (simp add: Let_def ITE_MAX_SEND_BYTES_def ITE_MAX_SEND_PACKETS_def PKT_SIZE_def
        SIZE_MOD_def refusing_first_def EINTR_def max_retry_def error_delay_def)
    apply (subst send_loop.simps)
    apply (simp add: Let_def ITE_MAX_SEND_BYTES_def ITE_MAX_SEND_PACKETS_def PKT_SIZE_def
        SIZE_MOD_def refusing_first_def EINTR_def max_retry_def error_delay_def)
    apply (subst send_loop.simps)
    apply simp
    done
  from send_chunk_splitting [OF h1 h3, of "mock_env all_ok refusing_first" 0] ev
  have c: "remdups_adj (writes_of [Log_send 173 0,
               Write 0 32336, Log_write 59 0 0 1 1, Usleep 100,
               Write 0 32336, Log_write 0 0 1 2 1,
               Write 32336 188, Log_write 0 0 0 3 1]) = spec_chunks 173"
    by blast
  then have c': "spec_chunks 173 = [(0, 32336), (32336, 188)]" by simp
  have e1: "\<exists>g' tr. Guts_send (mock_env all_ok accepting) 0 guts0 1000 = Some (True, g', tr)
         \<and> map (\<lambda>w. snd w div PKT_SIZE) (writes_of tr) = [172, 172, 172, 172, 172, 140]
         \<and> map fst (writes_of tr) = [0, 32336, 64672, 97008, 129344, 161680]"
    by (intro exI [of _ g'] exI [of _ tr] conjI r a b)
  have e2: "\<exists>g' tr. Guts_send (mock_env all_ok refusing_first) 0 guts0 173 = Some (True, g', tr)
         \<and> writes_of tr = [(0, 32336), (0, 32336), (32336, 188)]
         \<and> remdups_adj (writes_of tr) = spec_chunks 173"
    by (simp add: ev c')
  show ?thesis by (intro conjI h1 h2 h3 e1 e2)
qed

text \<open>
  C6. On entry of \<^verbatim>\<open>send\<close> with a bit rate and a sent-packet counter that are not zero:
  when the clock is past the due time, the due time becomes the clock value, the counter
  becomes zero and the lateness is logged; otherwise the check changes nothing. The write
  loop starts from the state the check leaves.
\<close>

theorem send_entry_resync:
  assumes "transmitting g" and "bitrate g \<noteq> 0" and "pkt_sent g \<noteq> 0"
  shows "send_entry now g =
           (if due_time g < now
            then (g\<lparr>due_time := now, pkt_sent := 0\<rparr>, [Log_late (now - due_time g)])
            else (g, []))
         \<and> Guts_send e now g packet_count =
           send_loop e (fst (send_entry now g)) 0 ((packet_count * PKT_SIZE) mod SIZE_MOD) 0 0
             (snd (send_entry now g) @ [Log_send packet_count (bitrate g)])"
  using assms by (simp add: Guts_send_def send_entry_def Let_def)

theorem send_entry_resync_witness:
  "transmitting guts1 \<and> bitrate guts1 \<noteq> 0 \<and> pkt_sent guts1 \<noteq> 0
   \<and> send_entry 5000 guts1 = (guts1\<lparr>due_time := 5000, pkt_sent := 0\<rparr>, [Log_late 4000])
   \<and> send_entry 500 guts1 = (guts1, [])"
  using send_entry_resync [of guts1 5000] send_entry_resync [of guts1 500]
  by (simp add: guts1_def)

text \<open>
  C7, as the claim states it, fails: a successful \<^verbatim>\<open>startTransmission\<close> resets the
  sent-packet counter but leaves the due time of the pacing clock as it was. A due time of
  10^15 from before the start is still there after it; after an unpaced \<^verbatim>\<open>send\<close> and a
  \<^verbatim>\<open>tune\<close>, it is the deadline the next \<^verbatim>\<open>send\<close> waits for.
\<close>

theorem startTransmission_due_time_counterexample:
  "startTransmission (mock_env all_ok accepting) \<lparr>is_open = True, the_guts = guts_stale\<rparr>
     = (True,
        \<lparr>is_open = True,
         the_guts = guts_stale\<lparr>transmitting := True, pkt_sent := 0, all_write := 0, fail_write := 0\<rparr>\<rparr>,
        [Log_precision, Ioctl (IOCTL_ITE_MOD_ENABLETXMODE 1), Ioctl IOCTL_ITE_MOD_STARTTRANSFER])
   \<and> due_time (guts_stale\<lparr>transmitting := True, pkt_sent := 0, all_write := 0, fail_write := 0\<rparr>)
     = 1000000000000000
   \<and> send (mock_env all_ok accepting) 2000
        \<lparr>is_open = True,
         the_guts = guts_stale\<lparr>transmitting := True, pkt_sent := 0, all_write := 0, fail_write := 0\<rparr>\<rparr>
        1
     = Some (True,
             \<lparr>is_open = True,
              the_guts = guts_stale\<lparr>transmitting := True, pkt_sent := 188, all_write := 1,
                                    fail_write := 0\<rparr>\<rparr>,
             [Log_send 1 0, Write 0 188, Log_write 0 0 0 1 0])
   \<and> tune (mock_env all_ok accepting)
        \<lparr>is_open = True,
         the_guts = guts_stale\<lparr>transmitting := True, pkt_sent := 188, all_write := 1,
                               fail_write := 0\<rparr>\<rparr>
        params0
     = (True,
        \<lparr>is_open = True,
         the_guts = guts_stale\<lparr>transmitting := True, bitrate := 4976470, pkt_sent := 188,
                               all_write := 1, fail_write := 0\<rparr>\<rparr>,
        [Ioctl (IOCTL_ITE_MOD_ACQUIRECHANNEL 474000 8000),
         Ioctl (IOCTL_ITE_MOD_SETMODULE Mode_64QAM CodeRate_2_OVER_3 Interval_1_OVER_32
                  TransmissionMode_8K)])
   \<and> send (mock_env all_ok accepting) 3000
        \<lparr>is_open = True,
         the_guts = guts_stale\<lparr>transmitting := True, bitrate := 4976470, pkt_sent := 188,
                               all_write := 1, fail_write := 0\<rparr>\<rparr>
        1
     = Some (True,
             \<lparr>is_open = True,
              the_guts = guts_stale\<lparr>transmitting := True, bitrate := 4976470,
                                    due_time := 1000000056817784, pkt_sent := 376,
                                    all_write := 2, fail_write := 0\<rparr>\<rparr>,
             [Log_send 1 4976470, Wait 1000000000000000, Write 0 188, Log_write 0 0 0 2 0])"
proof -
  have a: "startTransmission (mock_env all_ok accepting) \<lparr>is_open = True, the_guts = guts_stale\<rparr>
     = (True,
        \<lparr>is_open = True,
         the_guts = guts_stale\<lparr>transmitting := True, pkt_sent := 0, all_write := 0, fail_write := 0\<rparr>\<rparr>,
        [Log_precision, Ioctl (IOCTL_ITE_MOD_ENABLETXMODE 1), Ioctl IOCTL_ITE_MOD_STARTTRANSFER])"
    by (simp add: startTransmission_def Guts_startTransmission_def Let_def mock_env_def all_ok_def
        ioctl_ok_def ioctl_failed_def)
  have b: "due_time (guts_stale\<lparr>transmitting := True, pkt_sent := 0, all_write := 0, fail_write := 0\<rparr>)
     = 1000000000000000"
    by (simp add: guts_stale_def)
  have c: "send (mock_env all_ok accepting) 2000
        \<lparr>is_open = True,
         the_guts = guts_stale\<lparr>transmitting := True, pkt_sent := 0, all_write := 0, fail_write := 0\<rparr>\<rparr>
        1
     = Some (True,
             \<lparr>is_open = True,
              the_guts = guts_stale\<lparr>transmitting := True, pkt_sent := 188, all_write := 1,
                                    fail_write := 0\<rparr>\<rparr>,
             [Log_send 1 0, Write 0 188, Log_write 0 0 0 1 0])"
    apply (simp add: send_def Guts_send_def send_entry_def guts_stale_def mock_env_def Let_def
        PKT_SIZE_def SIZE_MOD_def)
    apply (subst send_loop.simps)
    apply (simp add: Let_def ITE_MAX_SEND_BYTES_def ITE_MAX_SEND_PACKETS_def PKT_SIZE_def
        SIZE_MOD_def accepting_def)
    apply (subst send_loop.simps)
    apply simp
    done
  have d: "tune (mock_env all_ok accepting)
        \<lparr>is_open = True,
         the_guts = guts_stale\<lparr>transmitting := True, pkt_sent := 188, all_write := 1,
                               fail_write := 0\<rparr>\<rparr>
        params0
     = (True,
        \<lparr>is_open = True,
         the_guts = guts_stale\<lparr>transmitting := True, bitrate := 4976470, pkt_sent := 188,
                               all_write := 1, fail_write := 0\<rparr>\<rparr>,
        [Ioctl (IOCTL_ITE_MOD_ACQUIRECHANNEL 474000 8000),
         Ioctl (IOCTL_ITE_MOD_SETMODULE Mode_64QAM CodeRate_2_OVER_3 Interval_1_OVER_32
                  TransmissionMode_8K)])"
    by (simp add: tune_def tune_driver_def params0_def mock_env_def all_ok_def ioctl_ok_def
        ioctl_failed_def Let_def guts_stale_def)
  have e: "send (mock_env all_ok accepting) 3000
        \<lparr>is_open = True,
         the_guts = guts_stale\<lparr>transmitting := True, bitrate := 4976470, pkt_sent := 188,
                               all_write := 1, fail_write := 0\<rparr>\<rparr>
        1
     = Some (True,
             \<lparr>is_open = True,
              the_guts = guts_stale\<lparr>transmitting := True, bitrate := 4976470,
                                    due_time := 1000000056817784, pkt_sent := 376,
                                    all_write := 2, fail_write := 0\<rparr>\<rparr>,
             [Log_send 1 4976470, Wait 1000000000000000, Write 0 188, Log_write 0 0 0 2 0])"
    apply (simp add: send_def Guts_send_def send_entry_def guts_stale_def mock_env_def Let_def
        PKT_SIZE_def SIZE_MOD_def)
    apply (subst send_loop.simps)
    apply (simp add: Let_def ITE_MAX_SEND_BYTES_def ITE_MAX_SEND_PACKETS_def PKT_SIZE_def
        SIZE_MOD_def NanoSecPerSec_def accepting_def)
    apply (subst send_loop.simps)
    apply simp
    done
  show ?thesis by (intro conjI a b c d e)
qed

text \<open>
  C7, amended. On an open session \<^verbatim>\<open>startTransmission\<close> issues the enable-mode command
  and then the start-transfer command. Exactly when both succeed the call returns success:
  the state is Transmitting and the sent-packet counter and the two statistics counters
  are zero; the due time and the bit rate are as before. When either command fails the
  error is reported (start-transfer is not issued after a failed enable-mode), the call
  returns failure and the object is left as it was: the state is the one before, and no
  counter is reset.
\<close>

theorem startTransmission_outcome:
  assumes "is_open d"
  shows "startTransmission e d =
      (if ioctl_failed (ioctl e (IOCTL_ITE_MOD_ENABLETXMODE 1)) then
         (False, d,
          [Log_precision, Ioctl (IOCTL_ITE_MOD_ENABLETXMODE 1),
           Error (''error enabling transmission: '' @
                  HiDesErrorMessage e (req_error (ioctl e (IOCTL_ITE_MOD_ENABLETXMODE 1)))
                    (ioctl_errno (ioctl e (IOCTL_ITE_MOD_ENABLETXMODE 1))))])
       else if ioctl_failed (ioctl e IOCTL_ITE_MOD_STARTTRANSFER) then
         (False, d,
          [Log_precision, Ioctl (IOCTL_ITE_MOD_ENABLETXMODE 1), Ioctl IOCTL_ITE_MOD_STARTTRANSFER,
           Error (''error starting transmission: '' @
                  HiDesErrorMessage e (req_error (ioctl e IOCTL_ITE_MOD_STARTTRANSFER))
                    (ioctl_errno (ioctl e IOCTL_ITE_MOD_STARTTRANSFER)))])
       else
         (True,
          d\<lparr>the_guts := (the_guts d)\<lparr>transmitting := True, pkt_sent := 0, all_write := 0,
                                        fail_write := 0\<rparr>\<rparr>,
          [Log_precision, Ioctl (IOCTL_ITE_MOD_ENABLETXMODE 1), Ioctl IOCTL_ITE_MOD_STARTTRANSFER]))
    \<and> state_of (fst (snd (startTransmission e d))) =
      (if ioctl_failed (ioctl e (IOCTL_ITE_MOD_ENABLETXMODE 1))
          \<or> ioctl_failed (ioctl e IOCTL_ITE_MOD_STARTTRANSFER)
       then state_of d else Transmitting)
    \<and> due_time (the_guts (fst (snd (startTransmission e d)))) = due_time (the_guts d)
    \<and> bitrate (the_guts (fst (snd (startTransmission e d)))) = bitrate (the_guts d)"
  using assms
  by (simp add: startTransmission_def Guts_startTransmission_def Let_def state_of_def)

theorem startTransmission_outcome_witness:
  "is_open \<lparr>is_open = True, the_guts = guts_stale\<rparr>
   \<and> startTransmission (mock_env all_ok accepting) \<lparr>is_open = True, the_guts = guts_stale\<rparr>
     = (True,
        \<lparr>is_open = True,
         the_guts = guts_stale\<lparr>transmitting := True, pkt_sent := 0, all_write := 0, fail_write := 0\<rparr>\<rparr>,
        [Log_precision, Ioctl (IOCTL_ITE_MOD_ENABLETXMODE 1), Ioctl IOCTL_ITE_MOD_STARTTRANSFER])
   \<and> startTransmission
       (mock_env (\<lambda>r. if r = IOCTL_ITE_MOD_STARTTRANSFER
                      then \<lparr>ioctl_ret = 0, req_error = 59, ioctl_errno = 0\<rparr> else ioctl_ok)
                 accepting)
       \<lparr>is_open = True, the_guts = guts_stale\<rparr>
     = (False, \<lparr>is_open = True, the_guts = guts_stale\<rparr>,
        [Log_precision, Ioctl (IOCTL_ITE_MOD_ENABLETXMODE 1), Ioctl IOCTL_ITE_MOD_STARTTRANSFER,
         Error ''error starting transmission: HiDes error''])
   \<and> startTransmission
       (mock_env (\<lambda>r. \<lparr>ioctl_ret = - 1, req_error = 0, ioctl_errno = 5\<rparr>) accepting)
       \<lparr>is_open = True, the_guts = guts_stale\<rparr>
     = (False, \<lparr>is_open = True, the_guts = guts_stale\<rparr>,
        [Log_precision, Ioctl (IOCTL_ITE_MOD_ENABLETXMODE 1),
         Error ''error enabling transmission: host error''])
   \<and> state_of \<lparr>is_open = True, the_guts = guts_stale\<rparr> = Opened
   \<and> state_of \<lparr>is_open = True,
         the_guts = guts_stale\<lparr>transmitting := True, pkt_sent := 0, all_write := 0, fail_write := 0\<rparr>\<rparr>
     = Transmitting"
proof -
  have o: "is_open \<lparr>is_open = True, the_guts = guts_stale\<rparr>" by simp
  show ?thesis
    using startTransmission_outcome [OF o, of "mock_env all_ok accepting"]
      startTransmission_outcome [OF o, of
        "mock_env (\<lambda>r. if r = IOCTL_ITE_MOD_STARTTRANSFER
                        then \<lparr>ioctl_ret = 0, req_error = 59, ioctl_errno = 0\<rparr> else ioctl_ok)
                  accepting"]
      startTransmission_outcome [OF o, of
        "mock_env (\<lambda>r. \<lparr>ioctl_ret = - 1, req_error = 0, ioctl_errno = 5\<rparr>) accepting"]
    by (simp add: mock_env_def ioctl_ok_def all_ok_def ioctl_failed_def guts_stale_def state_of_def
        HiDesErrorMessage_def)
qed

text \<open>
  C8. \<^verbatim>\<open>tune\<close> on an open device, with a bandwidth whose conversion to kHz is zero or
  with a modulation, code rate, guard interval, transmission mode or spectral inversion
  outside the values it translates: the call returns failure with one of the six
  "unsupported" messages as its only event, so no control command is issued, and the
  object, hence the stored bit rate, is left as it was.
\<close>

theorem tune_unsupported_parameter:
  assumes "is_open d"
    and "BandWidthValueHz e (bandwidth params) div 1000 = 0
       \<or> modulation params \<notin> {QPSK, QAM_16, QAM_64}
       \<or> fec_hp params \<notin> {FEC_1_2, FEC_2_3, FEC_3_4, FEC_5_6, FEC_7_8}
       \<or> guard_interval params \<notin> {GUARD_1_32, GUARD_1_16, GUARD_1_8, GUARD_1_4}
       \<or> transmission_mode params \<notin> {TM_2K, TM_4K, TM_8K}
       \<or> inversion params \<notin> {SPINV_OFF, SPINV_ON, SPINV_AUTO}"
  shows "\<exists>msg. tune e d params = (False, d, [Error msg])
       \<and> msg \<in> {''unsupported bandwidth'', ''unsupported constellation'',
                 ''unsupported high priority code rate'', ''unsupported guard interval'',
                 ''unsupported transmission mode'', ''unsupported spectral inversion''}
       \<and> ioctls_of (snd (snd (tune e d params))) = []
       \<and> bitrate (the_guts (fst (snd (tune e d params)))) = bitrate (the_guts d)"
proof -
  have m: "tune_constellation (modulation params) = None" if "modulation params \<notin> {QPSK, QAM_16, QAM_64}"
    using that by (cases "modulation params") simp_all
  have f: "tune_highCodeRate (fec_hp params) = None"
    if "fec_hp params \<notin> {FEC_1_2, FEC_2_3, FEC_3_4, FEC_5_6, FEC_7_8}"
    using that by (cases "fec_hp params") simp_all
  have gi: "tune_interval (guard_interval params) = None"
    if "guard_interval params \<notin> {GUARD_1_32, GUARD_1_16, GUARD_1_8, GUARD_1_4}"
    using that by (cases "guard_interval params") simp_all
  have t: "tune_transmissionMode (transmission_mode params) = None"
    if "transmission_mode params \<notin> {TM_2K, TM_4K, TM_8K}"
    using that by (cases "transmission_mode params") simp_all
  have i: "tune_inversion (inversion params) = None"
    if "inversion params \<notin> {SPINV_OFF, SPINV_ON, SPINV_AUTO}"
    using that by (cases "inversion params") simp_all
  from assms(2) have "BandWidthValueHz e (bandwidth params) div 1000 = 0
       \<or> tune_constellation (modulation params) = None
       \<or> tune_highCodeRate (fec_hp params) = None
       \<or> tune_interval (guard_interval params) = None
       \<or> tune_transmissionMode (transmission_mode params) = None
       \<or> tune_inversion (inversion params) = None"
    using m f gi t i by (elim disjE) simp_all
  then show ?thesis
    using assms(1) by (auto simp add: tune_def Let_def split: option.splits)
qed

theorem tune_unsupported_parameter_witness:
  "is_open \<lparr>is_open = True, the_guts = guts1\<rparr>
   \<and> modulation (params0\<lparr>modulation := Modulation_other 1\<rparr>) \<notin> {QPSK, QAM_16, QAM_64}
   \<and> tune (mock_env all_ok accepting) \<lparr>is_open = True, the_guts = guts1\<rparr>
       (params0\<lparr>modulation := Modulation_other 1\<rparr>)
     = (False, \<lparr>is_open = True, the_guts = guts1\<rparr>, [Error ''unsupported constellation''])
   \<and> tune (mock_env all_ok accepting) \<lparr>is_open = True, the_guts = guts1\<rparr> (params0\<lparr>bandwidth := 0\<rparr>)
     = (False, \<lparr>is_open = True, the_guts = guts1\<rparr>, [Error ''unsupported bandwidth''])
   \<and> fst (tune (mock_env all_ok accepting) \<lparr>is_open = True, the_guts = guts1\<rparr> params0) = True"
  using tune_unsupported_parameter [of "\<lparr>is_open = True, the_guts = guts1\<rparr>" "mock_env all_ok accepting"
      "params0\<lparr>modulation := Modulation_other 1\<rparr>"]
    tune_unsupported_parameter [of "\<lparr>is_open = True, the_guts = guts1\<rparr>" "mock_env all_ok accepting"
      "params0\<lparr>bandwidth := 0\<rparr>"]
  by (simp add: tune_def tune_driver_def params0_def mock_env_def all_ok_def ioctl_ok_def
      ioctl_failed_def Let_def)

text \<open>
  C9. The error text of a device status and a host error code: the text of the device
  status by the status lookup when the status is not zero, followed by the text of the
  host error code exactly when that code is not zero and differs from the status, the two
  separated by a comma and a space when the first text is there; empty when both are zero.
\<close>

theorem HiDesErrorMessage_composition:
  "HiDesErrorMessage e ds en =
     (if ds \<noteq> 0 then DVBNameFromSection_HiDesError e \<bar>ds\<bar> else '''')
     @ (if en \<noteq> 0 \<and> en \<noteq> ds
        then (if ds \<noteq> 0 \<and> DVBNameFromSection_HiDesError e \<bar>ds\<bar> \<noteq> '''' then '', '' else '''')
             @ ErrorCodeMessage e en
        else '''')"
  by (simp add: HiDesErrorMessage_def Let_def)

theorem HiDesErrorMessage_composition_witness:
  "HiDesErrorMessage (mock_env all_ok accepting) (- 59) 11 = ''HiDes error, host error''
   \<and> HiDesErrorMessage (mock_env all_ok accepting) 59 59 = ''HiDes error''
   \<and> HiDesErrorMessage (mock_env all_ok accepting) 59 0 = ''HiDes error''
   \<and> HiDesErrorMessage (mock_env all_ok accepting) 0 11 = ''host error''
   \<and> HiDesErrorMessage (mock_env all_ok accepting) 0 0 = ''''"
  by (simp add: HiDesErrorMessage_composition mock_env_def)

text \<open>
  C10. On an open session that is transmitting, \<^verbatim>\<open>send\<close> with no packet returns success
  without any write: its events are those of the check on entry and the log line, the two
  statistics counters are unchanged, and the state differs from the one before at most in
  the due time and the sent-packet counter, as the check on entry leaves them.
\<close>

theorem send_zero_packets:
  assumes "is_open d" and "transmitting (the_guts d)"
  shows "\<exists>g'. send e now d 0 =
           Some (True, d\<lparr>the_guts := g'\<rparr>,
                 snd (send_entry now (the_guts d)) @ [Log_send 0 (bitrate (the_guts d))])
         \<and> g' = fst (send_entry now (the_guts d))
         \<and> writes_of (snd (send_entry now (the_guts d)) @ [Log_send 0 (bitrate (the_guts d))]) = []
         \<and> all_write g' = all_write (the_guts d)
         \<and> fail_write g' = fail_write (the_guts d)
         \<and> g' = (the_guts d)\<lparr>due_time := due_time g', pkt_sent := pkt_sent g'\<rparr>"
  using assms
  by (simp add: send_def Guts_send_def send_loop.simps Let_def send_entry_def)

theorem send_zero_packets_witness:
  "is_open \<lparr>is_open = True, the_guts = guts1\<rparr> \<and> transmitting guts1
   \<and> send (mock_env all_ok refusing) 5000 \<lparr>is_open = True, the_guts = guts1\<rparr> 0
     = Some (True, \<lparr>is_open = True, the_guts = guts1\<lparr>due_time := 5000, pkt_sent := 0\<rparr>\<rparr>,
             [Log_late 4000, Log_send 0 8000000])"
  using send_zero_packets [of "\<lparr>is_open = True, the_guts = guts1\<rparr>" "mock_env all_ok refusing" 5000]
  by (simp add: guts1_def send_entry_def)

end
